theory Spec2Isabelle
  imports Complex_Main
begin

section \<open>Numbers\<close>

text \<open>
  The solver of \<^verbatim>\<open>ConsPortfolioModel.py\<close> computes with numpy floats. Rounding is
  idealised away: a finite float is a \<^typ>\<open>real\<close>. What is kept is the point where the
  source leaves the finite numbers: a division by zero and a power of a non-positive
  base give \<^verbatim>\<open>nan\<close> or \<^verbatim>\<open>inf\<close> there (numpy warns and goes on), and every sum, difference
  and product with such an operand is again not finite. \<open>None\<close> stands for such a value.
\<close>

type_synonym npfloat = "real option"

definition fadd :: "npfloat \<Rightarrow> npfloat \<Rightarrow> npfloat" where
  "fadd a b = (case a of None \<Rightarrow> None | Some x \<Rightarrow> (case b of None \<Rightarrow> None | Some y \<Rightarrow> Some (x + y)))"

definition fsub :: "npfloat \<Rightarrow> npfloat \<Rightarrow> npfloat" where
  "fsub a b = (case a of None \<Rightarrow> None | Some x \<Rightarrow> (case b of None \<Rightarrow> None | Some y \<Rightarrow> Some (x - y)))"

definition fmul :: "npfloat \<Rightarrow> npfloat \<Rightarrow> npfloat" where
  "fmul a b = (case a of None \<Rightarrow> None | Some x \<Rightarrow> (case b of None \<Rightarrow> None | Some y \<Rightarrow> Some (x * y)))"

definition fdiv :: "npfloat \<Rightarrow> npfloat \<Rightarrow> npfloat" where
  "fdiv a b = (case a of None \<Rightarrow> None | Some x \<Rightarrow>
     (case b of None \<Rightarrow> None | Some y \<Rightarrow> (if y = 0 then None else Some (x / y))))"

text \<open>\<^verbatim>\<open>np.min\<close> and \<^verbatim>\<open>np.max\<close> of a non-empty array.\<close>

fun np_min :: "real list \<Rightarrow> real" where
  "np_min [] = 0"
| "np_min (x # xs) = fold min xs x"

fun np_max :: "real list \<Rightarrow> real" where
  "np_max [] = 0"
| "np_max (x # xs) = fold max xs x"

text \<open>\<^verbatim>\<open>np.argmax\<close> of a non-empty row: the index of the first largest entry.\<close>

fun argmax :: "('a::linorder) list \<Rightarrow> nat" where
  "argmax [] = 0"
| "argmax [x] = 0"
| "argmax (x # y # ys) = (let k = argmax (y # ys) in if (y # ys) ! k \<le> x then 0 else Suc k)"

section \<open>The CRRA utility function\<close>

text \<open>
  Modelled from the spec: \<^verbatim>\<open>UtilityFuncCRRA\<close> of \<^verbatim>\<open>HARK.rewards\<close> is not among the
  sources. Section 6 of the specification gives the CRRA form \<open>u(c) = c^(1-\<rho>)/(1-\<rho>)\<close>,
  or \<open>log(c)\<close> at \<open>\<rho> = 1\<close>, with its derivative \<open>u'(c) = c^(-\<rho>)\<close>, the inverse of the
  derivative and the inverse of \<open>u\<close>. On arrays of the solver that can leave the finite
  numbers the result is an \<^typ>\<open>npfloat\<close>. A power of a negative base is finite when
  the exponent is a whole number and \<^verbatim>\<open>nan\<close> otherwise; a power of zero is left without
  a value (it is \<^verbatim>\<open>inf\<close> for a negative exponent, as in the marginal utility of zero
  consumption when \<open>\<rho>\<close> is positive).
\<close>

definition uFunc :: "real \<Rightarrow> real \<Rightarrow> real" where
  "uFunc rho c = (if rho = 1 then ln c else c powr (1 - rho) / (1 - rho))"

definition uFunc_inv :: "real \<Rightarrow> real \<Rightarrow> real" where
  "uFunc_inv rho v = (if rho = 1 then exp v else ((1 - rho) * v) powr (1 / (1 - rho)))"

definition uFunc_der_real :: "real \<Rightarrow> real \<Rightarrow> real" where
  "uFunc_der_real rho c = c powr (- rho)"

definition uFunc_derinv_real :: "real \<Rightarrow> real \<Rightarrow> real" where
  "uFunc_derinv_real rho x = x powr (- (1 / rho))"

definition np_power_neg :: "real \<Rightarrow> real \<Rightarrow> npfloat" where
  "np_power_neg x y =
     (if y = of_int \<lfloor>y\<rfloor> then Some ((if even \<lfloor>y\<rfloor> then 1 else - 1) * ((- x) powr y)) else None)"

definition uFunc_der :: "real \<Rightarrow> npfloat \<Rightarrow> npfloat" where
  "uFunc_der rho c =
     (case c of None \<Rightarrow> None
      | Some x \<Rightarrow> (if 0 < x then Some (uFunc_der_real rho x)
                   else if x < 0 then np_power_neg x (- rho)
                   else None))"

definition uFunc_derinv :: "real \<Rightarrow> real \<Rightarrow> npfloat" where
  "uFunc_derinv rho x =
     (if 0 < x then Some (uFunc_derinv_real rho x)
      else if x < 0 then np_power_neg x (- (1 / rho))
      else None)"

text \<open>
  On the arrays of the value functions: \<^verbatim>\<open>uFunc(c)\<close>, \<^verbatim>\<open>uFunc.inv(v)\<close> and
  \<^verbatim>\<open>uFunc.inverse(v, order=(0, 1))\<close>, the derivative of the inverse of \<open>u\<close>, which is
  \<open>((1-\<rho>) v)^(\<rho>/(1-\<rho>))\<close>; here a power of a base that is not positive is left
  without a value.
\<close>

definition uFunc_np :: "real \<Rightarrow> npfloat \<Rightarrow> npfloat" where
  "uFunc_np rho c = (case c of None \<Rightarrow> None | Some x \<Rightarrow> (if 0 < x then Some (uFunc rho x) else None))"

definition uFunc_inv_np :: "real \<Rightarrow> npfloat \<Rightarrow> npfloat" where
  "uFunc_inv_np rho v =
     (case v of None \<Rightarrow> None
      | Some x \<Rightarrow> (if rho = 1 \<or> 0 < (1 - rho) * x then Some (uFunc_inv rho x) else None))"

definition uFunc_invP_np :: "real \<Rightarrow> npfloat \<Rightarrow> npfloat" where
  "uFunc_invP_np rho v =
     (case v of None \<Rightarrow> None
      | Some x \<Rightarrow> (if rho = 1 then Some (exp x)
                   else if 0 < (1 - rho) * x then Some (((1 - rho) * x) powr (rho / (1 - rho)))
                   else None))"

section \<open>Function objects\<close>

text \<open>
  The policy and value functions of a solution are objects of \<^verbatim>\<open>HARK.interpolation\<close>.
  A constructor call of the source is a constructor here, with the arguments the source
  passes: \<^verbatim>\<open>LinearInterp(x_list, y_list, intercept_limit, slope_limit)\<close> with the two
  limits optional (\<^verbatim>\<open>None\<close> when the call does not pass them), \<^verbatim>\<open>IdentityFunction(i_dim,
  n_dims)\<close> (the call \<^verbatim>\<open>IdentityFunction()\<close> is \<open>IdentityFunction 0 1\<close>),
  \<^verbatim>\<open>LinearInterpOnInterp1D(xInterpolators, y_values)\<close>,
  \<^verbatim>\<open>CubicInterp(x_list, y_list, dydx_list)\<close>, \<^verbatim>\<open>BilinearInterp(f_values, x_list, y_list)\<close>.
\<close>

datatype func =
    NullFunc
  | IdentityFunction nat nat
  | ConstantFunction real
  | LinearInterp "npfloat list" "npfloat list" "real option" "real option"
  | LinearInterpOnInterp1D "func list" "real list"
  | CubicInterp "npfloat list" "npfloat list" "npfloat list"
  | BilinearInterp "npfloat list list" "real list" "real list"
  | MargValueFuncCRRA func real
  | ValueFuncCRRA func real

section \<open>The solution of one period\<close>

text \<open>
  \<^verbatim>\<open>PortfolioSolution.__init__\<close> takes sixteen keyword arguments, each \<^verbatim>\<open>None\<close> by
  default. A Python value that may be \<^verbatim>\<open>None\<close> is an option. The attributes \<open>hNrm\<close> and
  \<open>MPCmin\<close> are not set by the constructor: the caller assigns them afterwards.
\<close>

record PortfolioSolution_args =
  cFuncAdj :: "func option"
  ShareFuncAdj :: "func option"
  vFuncAdj :: "func option"
  vPfuncAdj :: "func option"
  cFuncFxd :: "func option"
  ShareFuncFxd :: "func option"
  vFuncFxd :: "func option"
  dvdmFuncFxd :: "func option"
  dvdsFuncFxd :: "func option"
  aGrid :: "real list option"
  Share_adj :: "npfloat list option"
  EndOfPrddvda_adj :: "npfloat list option"
  ShareGrid :: "real list option"
  EndOfPrddvda_fxd :: "npfloat list list option"
  EndOfPrddvds_fxd :: "real list list option"
  AdjPrb :: "real option"

record PortfolioSolution = PortfolioSolution_args +
  hNrm :: "real option"
  MPCmin :: "real option"

definition no_args :: PortfolioSolution_args where
  "no_args = \<lparr> cFuncAdj = None, ShareFuncAdj = None, vFuncAdj = None, vPfuncAdj = None,
     cFuncFxd = None, ShareFuncFxd = None, vFuncFxd = None, dvdmFuncFxd = None,
     dvdsFuncFxd = None, aGrid = None, Share_adj = None, EndOfPrddvda_adj = None,
     ShareGrid = None, EndOfPrddvda_fxd = None, EndOfPrddvds_fxd = None, AdjPrb = None \<rparr>"

text \<open>Lines 108--126: \<^verbatim>\<open>if f is None: f = NullFunc()\<close>, for each of the nine functions.\<close>

definition or_NullFunc :: "func option \<Rightarrow> func option" where
  "or_NullFunc f = (if f = None then Some NullFunc else f)"

definition PortfolioSolution_init :: "PortfolioSolution_args \<Rightarrow> PortfolioSolution" where
  "PortfolioSolution_init k =
     \<lparr> cFuncAdj = or_NullFunc (cFuncAdj k),
       ShareFuncAdj = or_NullFunc (ShareFuncAdj k),
       vFuncAdj = or_NullFunc (vFuncAdj k),
       vPfuncAdj = or_NullFunc (vPfuncAdj k),
       cFuncFxd = or_NullFunc (cFuncFxd k),
       ShareFuncFxd = or_NullFunc (ShareFuncFxd k),
       vFuncFxd = or_NullFunc (vFuncFxd k),
       dvdmFuncFxd = or_NullFunc (dvdmFuncFxd k),
       dvdsFuncFxd = or_NullFunc (dvdsFuncFxd k),
       aGrid = aGrid k,
       Share_adj = Share_adj k,
       EndOfPrddvda_adj = EndOfPrddvda_adj k,
       ShareGrid = ShareGrid k,
       EndOfPrddvda_fxd = EndOfPrddvda_fxd k,
       EndOfPrddvds_fxd = EndOfPrddvds_fxd k,
       AdjPrb = AdjPrb k,
       hNrm = None,
       MPCmin = None \<rparr>"

text \<open>
  \<^verbatim>\<open>PortfolioConsumerType.update_solution_terminal\<close> (lines 180--226); the argument is
  \<^verbatim>\<open>self.CRRA\<close>, the result is \<^verbatim>\<open>self.solution_terminal\<close>.
\<close>

definition update_solution_terminal :: "real \<Rightarrow> PortfolioSolution" where
  "update_solution_terminal CRRA =
     (let cFuncAdj_terminal = IdentityFunction 0 1;
          cFuncFxd_terminal = IdentityFunction 0 2;
          ShareFuncAdj_terminal = ConstantFunction 0;
          ShareFuncFxd_terminal = IdentityFunction 1 2;
          vFuncAdj_terminal = ValueFuncCRRA cFuncAdj_terminal CRRA;
          vFuncFxd_terminal = ValueFuncCRRA cFuncFxd_terminal CRRA;
          vPfuncAdj_terminal = MargValueFuncCRRA cFuncAdj_terminal CRRA;
          dvdmFuncFxd_terminal = MargValueFuncCRRA cFuncFxd_terminal CRRA;
          dvdsFuncFxd_terminal = ConstantFunction 0;
          solution_terminal = PortfolioSolution_init (no_args
            \<lparr> cFuncAdj := Some cFuncAdj_terminal,
              ShareFuncAdj := Some ShareFuncAdj_terminal,
              vFuncAdj := Some vFuncAdj_terminal,
              vPfuncAdj := Some vPfuncAdj_terminal,
              cFuncFxd := Some cFuncFxd_terminal,
              ShareFuncFxd := Some ShareFuncFxd_terminal,
              vFuncFxd := Some vFuncFxd_terminal,
              dvdmFuncFxd := Some dvdmFuncFxd_terminal,
              dvdsFuncFxd := Some dvdsFuncFxd_terminal \<rparr>)
      in solution_terminal \<lparr> hNrm := Some 0, MPCmin := Some 1 \<rparr>)"

section \<open>Calling a function object\<close>

text \<open>
  Modelled from the spec: the classes of \<^verbatim>\<open>HARK.interpolation\<close> are not among the
  sources. Section 6 of the specification names them: the identity passthrough that
  selects one of its inputs, the constant function, the 1-D piecewise-linear interpolant,
  the 1-D cubic interpolant, the 2-D bilinear interpolant, the linear interpolation
  over a family of 1-D interpolants indexed by a second coordinate, and the value and
  marginal-value wrappers that apply the CRRA utility and its derivative to the wrapped
  function. \<open>NullFunc\<close> is the placeholder of a function that was not computed: a call of
  it has no value. A call of the piecewise-linear interpolant at a point from the lowest
  gridpoint upwards finds the segment of the point among the gridpoints before the last
  and takes the line through the two nodes of that segment, computed on \<^typ>\<open>npfloat\<close>: a
  node that is not finite, or two nodes at the same gridpoint, leave the result without
  a finite value. Above the last node this continues the last segment when the
  interpolant was built without limits (the test \<^verbatim>\<open>test_econforgeinterp.py\<close> compares
  exactly this extrapolation with the linear one of \<^verbatim>\<open>LinearFast\<close>). Above the last
  node of an interpolant built with a limiting intercept and slope the specification
  only says that the function tends to the limiting line; that part is left without a
  value here, as is every call outside the cases listed.
\<close>

text \<open>The segment of a sorted grid that a point is interpolated on: the index of its upper
  node, as \<^verbatim>\<open>max(searchsorted(x_list[:-1], x), 1)\<close>.\<close>

definition searchsorted :: "real list \<Rightarrow> real \<Rightarrow> nat" where
  "searchsorted xs x = length (takeWhile (\<lambda>t. t < x) xs)"

definition segment :: "real list \<Rightarrow> real \<Rightarrow> nat" where
  "segment xs x = max (searchsorted (butlast xs) x) 1"


fun finite_nodes :: "npfloat list \<Rightarrow> real list option" where
  "finite_nodes [] = Some []"
| "finite_nodes (None # xs) = None"
| "finite_nodes (Some x # xs) = (case finite_nodes xs of None \<Rightarrow> None | Some ys \<Rightarrow> Some (x # ys))"

text \<open>
  The 2-D bilinear interpolant: a call interpolates on the cell of the two grids that
  holds the point, computed on \<^typ>\<open>npfloat\<close>: a cell of zero width, between two equal
  gridpoints, leaves the weight 0/0 and the result without a finite value.
\<close>

definition BilinearInterp_call :: "npfloat list list \<Rightarrow> real list \<Rightarrow> real list \<Rightarrow> real \<Rightarrow> real \<Rightarrow> npfloat" where
  "BilinearInterp_call f_values x_list y_list x y =
     (let i = segment x_list x;
          j = segment y_list y;
          alpha = fdiv (Some (x - x_list ! (i - 1))) (Some (x_list ! i - x_list ! (i - 1)));
          beta = fdiv (Some (y - y_list ! (j - 1))) (Some (y_list ! j - y_list ! (j - 1)))
      in fadd (fadd (fadd
           (fmul (fmul (fsub (Some 1) alpha) (fsub (Some 1) beta)) (f_values ! (i - 1) ! (j - 1)))
           (fmul (fmul (fsub (Some 1) alpha) beta) (f_values ! (i - 1) ! j)))
           (fmul (fmul alpha (fsub (Some 1) beta)) (f_values ! i ! (j - 1))))
           (fmul (fmul alpha beta) (f_values ! i ! j)))"

text \<open>
  The 1-D cubic interpolant has a value and a derivative at each node: between two
  neighbouring nodes it is the cubic with these values and derivatives at the two ends.
  The model covers a call from the lowest to the highest gridpoint; the specification
  does not say how the interpolant is continued outside.
\<close>

definition cubic_np :: "npfloat list \<Rightarrow> npfloat list \<Rightarrow> npfloat list \<Rightarrow> nat \<Rightarrow> real \<Rightarrow> npfloat" where
  "cubic_np x_list y_list dydx_list i x =
     (let x0 = x_list ! (i - 1); x1 = x_list ! i;
          y0 = y_list ! (i - 1); y1 = y_list ! i;
          d0 = dydx_list ! (i - 1); d1 = dydx_list ! i;
          span = fsub x1 x0;
          alpha = fdiv (fsub (Some x) x0) span;
          rise = fsub y1 y0;
          c1 = fmul d0 span;
          c2 = fsub (fsub (fmul (Some 3) rise) (fmul (Some 2) (fmul d0 span))) (fmul d1 span);
          c3 = fadd (fadd (fmul (Some (- 2)) rise) (fmul d0 span)) (fmul d1 span)
      in fadd y0 (fmul alpha (fadd c1 (fmul alpha (fadd c2 (fmul alpha c3))))))"

definition interp_np :: "npfloat list \<Rightarrow> npfloat list \<Rightarrow> nat \<Rightarrow> real \<Rightarrow> npfloat" where
  "interp_np x_list y_list i x =
     (let alpha = fdiv (fsub (Some x) (x_list ! (i - 1))) (fsub (x_list ! i) (x_list ! (i - 1)))
      in fadd (fmul (fsub (Some 1) alpha) (y_list ! (i - 1))) (fmul alpha (y_list ! i)))"

fun call1 :: "func \<Rightarrow> real \<Rightarrow> npfloat" where
  "call1 (IdentityFunction i n) m = (if i = 0 \<and> n = 1 then Some m else None)"
| "call1 (ConstantFunction c) m = Some c"
| "call1 (LinearInterp x_list y_list intercept_limit slope_limit) m =
     (if length x_list < 2 \<or> length y_list \<noteq> length x_list then None
      else case finite_nodes (butlast x_list) of
        None \<Rightarrow> None
      | Some xs \<Rightarrow>
          (if m < hd xs then None
           else if (intercept_limit \<noteq> None \<or> slope_limit \<noteq> None)
                   \<and> (case last x_list of None \<Rightarrow> False | Some t \<Rightarrow> t < m)
           then None
           else interp_np x_list y_list (max (searchsorted xs m) 1) m))"
| "call1 (MargValueFuncCRRA cFunc CRRA) m = uFunc_der CRRA (call1 cFunc m)"
| "call1 (ValueFuncCRRA vFuncNvrs CRRA) m =
     (case call1 vFuncNvrs m of None \<Rightarrow> None
      | Some c \<Rightarrow> (if 0 < c then Some (uFunc CRRA c) else None))"
| "call1 (CubicInterp x_list y_list dydx_list) m =
     (if length x_list < 2 \<or> length y_list \<noteq> length x_list \<or> length dydx_list \<noteq> length x_list
      then None
      else case finite_nodes x_list of
        None \<Rightarrow> None
      | Some xs \<Rightarrow>
          (if m < hd xs \<or> last xs < m then None
           else if searchsorted xs m = 0 then hd y_list
           else cubic_np x_list y_list dydx_list (searchsorted xs m) m))"
| "call1 NullFunc m = None"
| "call1 (LinearInterpOnInterp1D fs ys) m = None"
| "call1 (BilinearInterp f_values x_list y_list) m = None"

fun call2 :: "func \<Rightarrow> real \<Rightarrow> real \<Rightarrow> npfloat" where
  "call2 (IdentityFunction i n) m s = (if n = 2 \<and> i = 0 then Some m else if n = 2 \<and> i = 1 then Some s else None)"
| "call2 (ConstantFunction c) m s = Some c"
| "call2 (MargValueFuncCRRA cFunc CRRA) m s = uFunc_der CRRA (call2 cFunc m s)"
| "call2 (ValueFuncCRRA vFuncNvrs CRRA) m s =
     (case call2 vFuncNvrs m s of None \<Rightarrow> None
      | Some c \<Rightarrow> (if 0 < c then Some (uFunc CRRA c) else None))"
| "call2 (LinearInterpOnInterp1D xInterpolators y_list) m s =
     (if length y_list < 2 \<or> length xInterpolators \<noteq> length y_list then None
      else let j = segment y_list s;
               alpha = fdiv (Some (s - y_list ! (j - 1))) (Some (y_list ! j - y_list ! (j - 1)))
           in fadd (fmul (fsub (Some 1) alpha) (call1 (xInterpolators ! (j - 1)) m))
                   (fmul alpha (call1 (xInterpolators ! j) m)))"
| "call2 (BilinearInterp f_values x_list y_list) m s =
     (if length x_list < 2 \<or> length y_list < 2 then None
      else BilinearInterp_call f_values x_list y_list m s)"
| "call2 NullFunc m s = None"
| "call2 (LinearInterp x_list y_list intercept_limit slope_limit) m s = None"
| "call2 (CubicInterp x_list y_list dydx_list) m s = None"

section \<open>Shock distributions and expectations\<close>

text \<open>
  Modelled from the spec: the distribution classes and \<^verbatim>\<open>expected\<close> of
  \<^verbatim>\<open>HARK.distribution\<close> are not among the sources. Section 6 of the specification: a
  distribution exposes discrete atoms with matching probability weights, each atom of a
  multivariate distribution mapping the named shock components to values, and
  \<^verbatim>\<open>expected(f, distribution, args)\<close> is the probability-weighted sum of \<open>f\<close> over
  the atoms, for each entry of the arrays in \<open>args\<close>. A distribution is the list of its
  atoms, each with its probability.
\<close>

record IncShk =
  PermShk :: real
  TranShk :: real

record Shock = IncShk +
  Risky :: real

type_synonym 'a Distribution = "(real \<times> 'a) list"

definition expected :: "('a \<Rightarrow> real) \<Rightarrow> 'a Distribution \<Rightarrow> real" where
  "expected f dstn = sum_list (map (\<lambda>(pr, S). pr * f S) dstn)"

text \<open>\<^verbatim>\<open>np.meshgrid(xs, ys, indexing="ij")\<close> followed by an elementwise computation: the
  array whose entry \<open>(i, j)\<close> is computed from \<open>xs[i]\<close> and \<open>ys[j]\<close>.\<close>

definition on_meshgrid :: "real list \<Rightarrow> real list \<Rightarrow> (real \<Rightarrow> real \<Rightarrow> 'a) \<Rightarrow> 'a list list" where
  "on_meshgrid xs ys f = map (\<lambda>x. map (\<lambda>y. f x y) ys) xs"

section \<open>The inputs of the period solver\<close>

text \<open>The seventeen parameters of \<^verbatim>\<open>solve_one_period_ConsPortfolio\<close> (lines 307--325).
  \<open>BoroCnstArt\<close> is documented as float or \<^verbatim>\<open>None\<close>.\<close>

record solver_args =
  solution_next :: PortfolioSolution
  ShockDstn :: "Shock Distribution"
  IncShkDstn :: "IncShk Distribution"
  RiskyDstn :: "real Distribution"
  LivPrb :: real
  DiscFac :: real
  CRRA :: real
  Rfree :: real
  PermGroFac :: real
  BoroCnstArt :: "real option"
  aXtraGrid :: "real list"
  ShareGrid :: "real list"
  AdjustPrb :: real
  ShareLimit :: real
  vFuncBool :: bool
  DiscreteShareBool :: bool
  IndepDstnBool :: bool

text \<open>
  The functions of next period's solution, called inside the expectations (lines
  409--413). The expectations are computed on finite reals: where a call has no finite
  value the model does not say what the expectation is.
\<close>

definition value1 :: "func option \<Rightarrow> real \<Rightarrow> real" where
  "value1 f m = the (call1 (the f) m)"

definition value2 :: "func option \<Rightarrow> real \<Rightarrow> real \<Rightarrow> real" where
  "value2 f m s = the (call2 (the f) m s)"

definition vPfuncAdj_next :: "solver_args \<Rightarrow> real \<Rightarrow> real" where
  "vPfuncAdj_next p = value1 (vPfuncAdj (solution_next p))"

definition dvdmFuncFxd_next :: "solver_args \<Rightarrow> real \<Rightarrow> real \<Rightarrow> real" where
  "dvdmFuncFxd_next p = value2 (dvdmFuncFxd (solution_next p))"

definition dvdsFuncFxd_next :: "solver_args \<Rightarrow> real \<Rightarrow> real \<Rightarrow> real" where
  "dvdsFuncFxd_next p = value2 (dvdsFuncFxd (solution_next p))"

definition vFuncAdj_next :: "solver_args \<Rightarrow> real \<Rightarrow> real" where
  "vFuncAdj_next p = value1 (vFuncAdj (solution_next p))"

definition vFuncFxd_next :: "solver_args \<Rightarrow> real \<Rightarrow> real \<Rightarrow> real" where
  "vFuncFxd_next p = value2 (vFuncFxd (solution_next p))"

section \<open>Asymptotic terms and grids (lines 404--472)\<close>

definition DiscFacEff :: "solver_args \<Rightarrow> real" where
  "DiscFacEff p = DiscFac p * LivPrb p"

definition BoroCnstNat_iszero :: "solver_args \<Rightarrow> bool" where
  "BoroCnstNat_iszero p = (np_min (map (\<lambda>(pr, S). TranShk S) (IncShkDstn p)) = 0)"

definition RiskyMax :: "solver_args \<Rightarrow> real" where
  "RiskyMax p = np_max (map snd (RiskyDstn p))"

definition RiskyMin :: "solver_args \<Rightarrow> real" where
  "RiskyMin p = np_min (map snd (RiskyDstn p))"

definition calc_Radj :: "solver_args \<Rightarrow> real \<Rightarrow> real" where
  "calc_Radj p R =
     (let Rport = ShareLimit p * R + (1 - ShareLimit p) * Rfree p
      in Rport powr (1 - CRRA p))"

definition R_adj :: "solver_args \<Rightarrow> real" where
  "R_adj p = expected (calc_Radj p) (RiskyDstn p)"

definition PatFac :: "solver_args \<Rightarrow> real" where
  "PatFac p = (DiscFacEff p * R_adj p) powr (1 / CRRA p)"

definition MPCminNow :: "solver_args \<Rightarrow> real" where
  "MPCminNow p = 1 / (1 + PatFac p / the (MPCmin (solution_next p)))"

definition calc_hNrm :: "solver_args \<Rightarrow> Shock \<Rightarrow> real" where
  "calc_hNrm p S =
     (let G = PermGroFac p * PermShk S;
          Rport = ShareLimit p * Risky S + (1 - ShareLimit p) * Rfree p
      in (G / Rport powr CRRA p) * (TranShk S + the (hNrm (solution_next p))))"

definition hNrmNow :: "solver_args \<Rightarrow> real" where
  "hNrmNow p = expected (calc_hNrm p) (ShockDstn p) / R_adj p"

definition cFuncLimitIntercept :: "solver_args \<Rightarrow> real" where
  "cFuncLimitIntercept p = MPCminNow p * hNrmNow p"

definition cFuncLimitSlope :: "solver_args \<Rightarrow> real" where
  "cFuncLimitSlope p = MPCminNow p"

definition aNrmGrid :: "solver_args \<Rightarrow> real list" where
  "aNrmGrid p = (if BoroCnstNat_iszero p then aXtraGrid p else 0 # aXtraGrid p)"

definition bNrmGrid :: "solver_args \<Rightarrow> real list" where
  "bNrmGrid p =
     (if BoroCnstNat_iszero p
      then (RiskyMin p * hd (aXtraGrid p)) # map (\<lambda>a. RiskyMax p * a) (aXtraGrid p)
      else map (\<lambda>a. RiskyMax p * a) (0 # aXtraGrid p))"


definition ShareCount :: "solver_args \<Rightarrow> nat" where
  "ShareCount p = length (ShareGrid p)"

section \<open>End-of-period expectations: the independent path (lines 479--655)\<close>

text \<open>
  The intermediate functions are called inside the expectations over the return shocks,
  which are computed on finite reals: where a call has no finite value the model does not
  say what the expectation is.
\<close>

definition calc_mNrm_next :: "solver_args \<Rightarrow> IncShk \<Rightarrow> real \<Rightarrow> real" where
  "calc_mNrm_next p S b = b / (PermShk S * PermGroFac p) + TranShk S"

definition calc_dvdm_next :: "solver_args \<Rightarrow> IncShk \<Rightarrow> real \<Rightarrow> real \<Rightarrow> real" where
  "calc_dvdm_next p S b z =
     (let mNrm_next = calc_mNrm_next p S b;
          dvdmAdj_next = vPfuncAdj_next p mNrm_next;
          dvdm_next = (if AdjustPrb p < 1
                       then AdjustPrb p * dvdmAdj_next + (1 - AdjustPrb p) * dvdmFuncFxd_next p mNrm_next z
                       else dvdmAdj_next)
      in (PermShk S * PermGroFac p) powr (- CRRA p) * dvdm_next)"

definition calc_dvds_next :: "solver_args \<Rightarrow> IncShk \<Rightarrow> real \<Rightarrow> real \<Rightarrow> real" where
  "calc_dvds_next p S b z =
     (let mNrm_next = calc_mNrm_next p S b;
          dvdsAdj_next = 0;
          dvds_next = (if AdjustPrb p < 1
                       then AdjustPrb p * dvdsAdj_next + (1 - AdjustPrb p) * dvdsFuncFxd_next p mNrm_next z
                       else dvdsAdj_next)
      in (PermShk S * PermGroFac p) powr (1 - CRRA p) * dvds_next)"

definition dvdb_intermed :: "solver_args \<Rightarrow> real list list" where
  "dvdb_intermed p = on_meshgrid (bNrmGrid p) (ShareGrid p)
     (\<lambda>b z. expected (\<lambda>S. calc_dvdm_next p S b z) (IncShkDstn p))"

definition dvdbNvrs_intermed :: "solver_args \<Rightarrow> real list list" where
  "dvdbNvrs_intermed p = map (map (uFunc_derinv_real (CRRA p))) (dvdb_intermed p)"

definition dvdbNvrsFunc_intermed :: "solver_args \<Rightarrow> real \<Rightarrow> real \<Rightarrow> npfloat" where
  "dvdbNvrsFunc_intermed p
     = BilinearInterp_call (map (map Some) (dvdbNvrs_intermed p)) (bNrmGrid p) (ShareGrid p)"

definition dvdbFunc_intermed :: "solver_args \<Rightarrow> real \<Rightarrow> real \<Rightarrow> real" where
  "dvdbFunc_intermed p b z = the (uFunc_der (CRRA p) (dvdbNvrsFunc_intermed p b z))"

definition dvds_intermed :: "solver_args \<Rightarrow> real list list" where
  "dvds_intermed p = on_meshgrid (bNrmGrid p) (ShareGrid p)
     (\<lambda>b z. expected (\<lambda>S. calc_dvds_next p S b z) (IncShkDstn p))"

definition dvdsFunc_intermed :: "solver_args \<Rightarrow> real \<Rightarrow> real \<Rightarrow> real" where
  "dvdsFunc_intermed p b z
     = the (BilinearInterp_call (map (map Some) (dvds_intermed p)) (bNrmGrid p) (ShareGrid p) b z)"

definition calc_EndOfPrd_dvda :: "solver_args \<Rightarrow> real \<Rightarrow> real \<Rightarrow> real \<Rightarrow> real" where
  "calc_EndOfPrd_dvda p S a z =
     (let Rxs = S - Rfree p;
          Rport = Rfree p + z * Rxs;
          bNrm_next = Rport * a
      in Rport * dvdbFunc_intermed p bNrm_next z)"

definition calc_EndOfPrddvds :: "solver_args \<Rightarrow> real \<Rightarrow> real \<Rightarrow> real \<Rightarrow> real" where
  "calc_EndOfPrddvds p S a z =
     (let Rxs = S - Rfree p;
          Rport = Rfree p + z * Rxs;
          bNrm_next = Rport * a
      in Rxs * a * dvdbFunc_intermed p bNrm_next z + dvdsFunc_intermed p bNrm_next z)"

definition EndOfPrd_dvda_indep :: "solver_args \<Rightarrow> real list list" where
  "EndOfPrd_dvda_indep p = on_meshgrid (aNrmGrid p) (ShareGrid p)
     (\<lambda>a z. DiscFacEff p * expected (\<lambda>S. calc_EndOfPrd_dvda p S a z) (RiskyDstn p))"

definition EndOfPrd_dvds_indep :: "solver_args \<Rightarrow> real list list" where
  "EndOfPrd_dvds_indep p = on_meshgrid (aNrmGrid p) (ShareGrid p)
     (\<lambda>a z. DiscFacEff p * expected (\<lambda>S. calc_EndOfPrddvds p S a z) (RiskyDstn p))"

definition calc_v_intermed :: "solver_args \<Rightarrow> IncShk \<Rightarrow> real \<Rightarrow> real \<Rightarrow> real" where
  "calc_v_intermed p S b z =
     (let mNrm_next = calc_mNrm_next p S b;
          vAdj_next = vFuncAdj_next p mNrm_next;
          v_next = (if AdjustPrb p < 1
                    then AdjustPrb p * vAdj_next + (1 - AdjustPrb p) * vFuncFxd_next p mNrm_next z
                    else vAdj_next)
      in (PermShk S * PermGroFac p) powr (1 - CRRA p) * v_next)"

definition v_intermed :: "solver_args \<Rightarrow> real list list" where
  "v_intermed p = on_meshgrid (bNrmGrid p) (ShareGrid p)
     (\<lambda>b z. expected (\<lambda>S. calc_v_intermed p S b z) (IncShkDstn p))"

definition vNvrs_intermed :: "solver_args \<Rightarrow> real list list" where
  "vNvrs_intermed p = map (map (uFunc_inv (CRRA p))) (v_intermed p)"

definition vNvrsFunc_intermed :: "solver_args \<Rightarrow> real \<Rightarrow> real \<Rightarrow> npfloat" where
  "vNvrsFunc_intermed p
     = BilinearInterp_call (map (map Some) (vNvrs_intermed p)) (bNrmGrid p) (ShareGrid p)"

definition vFunc_intermed :: "solver_args \<Rightarrow> real \<Rightarrow> real \<Rightarrow> real" where
  "vFunc_intermed p b z =
     the (case vNvrsFunc_intermed p b z of None \<Rightarrow> None
          | Some c \<Rightarrow> (if 0 < c then Some (uFunc (CRRA p) c) else None))"

definition calc_EndOfPrd_v_indep :: "solver_args \<Rightarrow> real \<Rightarrow> real \<Rightarrow> real \<Rightarrow> real" where
  "calc_EndOfPrd_v_indep p S a z =
     (let Rxs = S - Rfree p;
          Rport = Rfree p + z * Rxs;
          bNrm_next = Rport * a
      in vFunc_intermed p bNrm_next z)"

definition EndOfPrd_v_indep :: "solver_args \<Rightarrow> real list list" where
  "EndOfPrd_v_indep p = on_meshgrid (aNrmGrid p) (ShareGrid p)
     (\<lambda>a z. DiscFacEff p * expected (\<lambda>S. calc_EndOfPrd_v_indep p S a z) (RiskyDstn p))"

section \<open>End-of-period expectations: the joint path (lines 660--760)\<close>

definition calc_mNrm_next_joint :: "solver_args \<Rightarrow> Shock \<Rightarrow> real \<Rightarrow> real \<Rightarrow> real" where
  "calc_mNrm_next_joint p S a z =
     (let Rxs = Risky S - Rfree p;
          Rport = Rfree p + z * Rxs;
          bNrm_next = Rport * a
      in bNrm_next / (PermShk S * PermGroFac p) + TranShk S)"

definition calc_EndOfPrd_dvdx :: "solver_args \<Rightarrow> Shock \<Rightarrow> real \<Rightarrow> real \<Rightarrow> real \<times> real" where
  "calc_EndOfPrd_dvdx p S a z =
     (let mNrm_next = calc_mNrm_next_joint p S a z;
          Rxs = Risky S - Rfree p;
          Rport = Rfree p + z * Rxs;
          dvdmAdj_next = vPfuncAdj_next p mNrm_next;
          dvdsAdj_next = 0;
          dvdm_next = (if AdjustPrb p < 1
                       then AdjustPrb p * dvdmAdj_next + (1 - AdjustPrb p) * dvdmFuncFxd_next p mNrm_next z
                       else dvdmAdj_next);
          dvds_next = (if AdjustPrb p < 1
                       then AdjustPrb p * dvdsAdj_next + (1 - AdjustPrb p) * dvdsFuncFxd_next p mNrm_next z
                       else dvdsAdj_next);
          EndOfPrd_dvda = Rport * (PermShk S * PermGroFac p) powr (- CRRA p) * dvdm_next;
          EndOfPrd_dvds = Rxs * a * (PermShk S * PermGroFac p) powr (- CRRA p) * dvdm_next
                          + (PermShk S * PermGroFac p) powr (1 - CRRA p) * dvds_next
      in (EndOfPrd_dvda, EndOfPrd_dvds))"

definition calc_EndOfPrd_v_joint :: "solver_args \<Rightarrow> Shock \<Rightarrow> real \<Rightarrow> real \<Rightarrow> real" where
  "calc_EndOfPrd_v_joint p S a z =
     (let mNrm_next = calc_mNrm_next_joint p S a z;
          vAdj_next = vFuncAdj_next p mNrm_next;
          v_next = (if AdjustPrb p < 1
                    then AdjustPrb p * vAdj_next + (1 - AdjustPrb p) * vFuncFxd_next p mNrm_next z
                    else vAdj_next)
      in (PermShk S * PermGroFac p) powr (1 - CRRA p) * v_next)"

definition EndOfPrd_dvda_joint :: "solver_args \<Rightarrow> real list list" where
  "EndOfPrd_dvda_joint p = on_meshgrid (aNrmGrid p) (ShareGrid p)
     (\<lambda>a z. DiscFacEff p * expected (\<lambda>S. fst (calc_EndOfPrd_dvdx p S a z)) (ShockDstn p))"

definition EndOfPrd_dvds_joint :: "solver_args \<Rightarrow> real list list" where
  "EndOfPrd_dvds_joint p = on_meshgrid (aNrmGrid p) (ShareGrid p)
     (\<lambda>a z. DiscFacEff p * expected (\<lambda>S. snd (calc_EndOfPrd_dvdx p S a z)) (ShockDstn p))"

definition EndOfPrd_v_joint :: "solver_args \<Rightarrow> real list list" where
  "EndOfPrd_v_joint p = on_meshgrid (aNrmGrid p) (ShareGrid p)
     (\<lambda>a z. DiscFacEff p * expected (\<lambda>S. calc_EndOfPrd_v_joint p S a z) (ShockDstn p))"

section \<open>The end-of-period arrays\<close>

text \<open>The arrays over the asset-by-share grid that either path leaves for the rest of the
  solver. \<open>EndOfPrd_v\<close> is only computed when \<open>vFuncBool\<close> is set.\<close>

record EndOfPrd_arrays =
  EndOfPrd_dvda :: "real list list"
  EndOfPrd_dvds :: "real list list"
  EndOfPrd_v :: "real list list option"

definition end_of_period :: "solver_args \<Rightarrow> EndOfPrd_arrays" where
  "end_of_period p =
     (if IndepDstnBool p
      then \<lparr> EndOfPrd_dvda = EndOfPrd_dvda_indep p,
             EndOfPrd_dvds = EndOfPrd_dvds_indep p,
             EndOfPrd_v = (if vFuncBool p then Some (EndOfPrd_v_indep p) else None) \<rparr>
      else \<lparr> EndOfPrd_dvda = EndOfPrd_dvda_joint p,
             EndOfPrd_dvds = EndOfPrd_dvds_joint p,
             EndOfPrd_v = (if vFuncBool p then Some (EndOfPrd_v_joint p) else None) \<rparr>)"

definition EndOfPrd_dvdaNvrs :: "solver_args \<Rightarrow> EndOfPrd_arrays \<Rightarrow> npfloat list list" where
  "EndOfPrd_dvdaNvrs p E = map (map (uFunc_derinv (CRRA p))) (EndOfPrd_dvda E)"

section \<open>The optimal risky share (lines 762--817)\<close>

text \<open>
  numpy computes on whole arrays. The expressions of the source that work row by row
  (one row of the asset-by-share arrays for each end-of-period asset gridpoint) are
  written for one row and mapped over the rows. \<open>FOC_s\<close> is a row of \<open>EndOfPrd_dvds\<close>
  and \<open>share_grid\<close> is \<open>ShareGrid\<close>.
\<close>

text \<open>Discrete choice (lines 764--771).\<close>

definition opt_idx :: "real list \<Rightarrow> nat" where
  "opt_idx EndOfPrd_v_row = argmax EndOfPrd_v_row"

definition ShareAdj_discrete :: "real list \<Rightarrow> real list \<Rightarrow> npfloat" where
  "ShareAdj_discrete share_grid EndOfPrd_v_row = Some (share_grid ! opt_idx EndOfPrd_v_row)"

definition cNrmAdj_discrete :: "npfloat list \<Rightarrow> real list \<Rightarrow> npfloat" where
  "cNrmAdj_discrete EndOfPrd_dvdaNvrs_row EndOfPrd_v_row = EndOfPrd_dvdaNvrs_row ! opt_idx EndOfPrd_v_row"

text \<open>Continuous choice (lines 773--809).\<close>

definition crossing :: "real list \<Rightarrow> bool list" where
  "crossing FOC_s = map (\<lambda>(top, bot). top \<le> 0 \<and> 0 \<le> bot) (zip (tl FOC_s) (butlast FOC_s))"

definition share_idx :: "real list \<Rightarrow> nat" where
  "share_idx FOC_s = argmax (crossing FOC_s)"

definition alpha :: "real list \<Rightarrow> npfloat" where
  "alpha FOC_s =
     (let bot_f = FOC_s ! share_idx FOC_s;
          top_f = FOC_s ! (share_idx FOC_s + 1)
      in fsub (Some 1) (fdiv (Some top_f) (Some (top_f - bot_f))))"

definition constrained_top :: "real list \<Rightarrow> bool" where
  "constrained_top FOC_s = (0 < last FOC_s)"

definition constrained_bot :: "real list \<Rightarrow> bool" where
  "constrained_bot FOC_s = (hd FOC_s < 0)"

definition ShareAdj_continuous :: "real list \<Rightarrow> real list \<Rightarrow> npfloat" where
  "ShareAdj_continuous share_grid FOC_s =
     (let bot_s = share_grid ! share_idx FOC_s;
          top_s = share_grid ! (share_idx FOC_s + 1);
          ShareAdj_now = fadd (fmul (fsub (Some 1) (alpha FOC_s)) (Some bot_s))
                              (fmul (alpha FOC_s) (Some top_s))
      in if constrained_bot FOC_s then Some 0
         else if constrained_top FOC_s then Some 1
         else ShareAdj_now)"

definition cNrmAdj_continuous :: "npfloat list \<Rightarrow> real list \<Rightarrow> npfloat" where
  "cNrmAdj_continuous EndOfPrd_dvdaNvrs_row FOC_s =
     (let bot_c = EndOfPrd_dvdaNvrs_row ! share_idx FOC_s;
          top_c = EndOfPrd_dvdaNvrs_row ! (share_idx FOC_s + 1);
          cNrmAdj_now = fadd (fmul (fsub (Some 1) (alpha FOC_s)) bot_c)
                             (fmul (alpha FOC_s) top_c)
      in if constrained_bot FOC_s then hd EndOfPrd_dvdaNvrs_row
         else if constrained_top FOC_s then last EndOfPrd_dvdaNvrs_row
         else cNrmAdj_now)"

text \<open>\<open>ShareAdj_now\<close> and \<open>cNrmAdj_now\<close> as they stand after line 809.\<close>

definition ShareAdj_opt :: "solver_args \<Rightarrow> EndOfPrd_arrays \<Rightarrow> npfloat list" where
  "ShareAdj_opt p E =
     (if DiscreteShareBool p
      then map (ShareAdj_discrete (ShareGrid p)) (the (EndOfPrd_v E))
      else map (ShareAdj_continuous (ShareGrid p)) (EndOfPrd_dvds E))"

definition cNrmAdj_opt :: "solver_args \<Rightarrow> EndOfPrd_arrays \<Rightarrow> npfloat list" where
  "cNrmAdj_opt p E =
     (if DiscreteShareBool p
      then map2 cNrmAdj_discrete (EndOfPrd_dvdaNvrs p E) (the (EndOfPrd_v E))
      else map2 cNrmAdj_continuous (EndOfPrd_dvdaNvrs p E) (EndOfPrd_dvds E))"

text \<open>The fix of the bottom gridpoint (lines 815--817): \<open>ShareAdj_now\<close> and \<open>cNrmAdj_now\<close>
  as they stand after line 817.\<close>

definition ShareAdj_now :: "solver_args \<Rightarrow> EndOfPrd_arrays \<Rightarrow> npfloat list" where
  "ShareAdj_now p E =
     (if \<not> BoroCnstNat_iszero p then (ShareAdj_opt p E)[0 := Some 1] else ShareAdj_opt p E)"

definition cNrmAdj_now :: "solver_args \<Rightarrow> EndOfPrd_arrays \<Rightarrow> npfloat list" where
  "cNrmAdj_now p E =
     (if \<not> BoroCnstNat_iszero p
      then (cNrmAdj_opt p E)[0 := last (EndOfPrd_dvdaNvrs p E ! 0)]
      else cNrmAdj_opt p E)"

section \<open>The functions of the solution (lines 819--870)\<close>

definition mNrmAdj_now :: "solver_args \<Rightarrow> EndOfPrd_arrays \<Rightarrow> npfloat list" where
  "mNrmAdj_now p E = Some 0 # map2 fadd (map Some (aNrmGrid p)) (cNrmAdj_now p E)"

text \<open>\<open>cNrmAdj_now\<close> after line 824.\<close>

definition cNrmAdj_ins :: "solver_args \<Rightarrow> EndOfPrd_arrays \<Rightarrow> npfloat list" where
  "cNrmAdj_ins p E = Some 0 # cNrmAdj_now p E"

definition cFuncAdj_now :: "solver_args \<Rightarrow> EndOfPrd_arrays \<Rightarrow> func" where
  "cFuncAdj_now p E = LinearInterp (mNrmAdj_now p E) (cNrmAdj_ins p E) None None"

definition vPfuncAdj_now :: "solver_args \<Rightarrow> EndOfPrd_arrays \<Rightarrow> func" where
  "vPfuncAdj_now p E = MargValueFuncCRRA (cFuncAdj_now p E) (CRRA p)"

text \<open>The loop over the share gridpoints (lines 832--839); \<open>column A j\<close> is \<^verbatim>\<open>A[:, j]\<close>.\<close>

definition column :: "'a list list \<Rightarrow> nat \<Rightarrow> 'a list" where
  "column A j = map (\<lambda>row. row ! j) A"

definition cNrmFxd_temp :: "solver_args \<Rightarrow> EndOfPrd_arrays \<Rightarrow> nat \<Rightarrow> npfloat list" where
  "cNrmFxd_temp p E j = Some 0 # column (EndOfPrd_dvdaNvrs p E) j"

definition mNrmFxd_temp :: "solver_args \<Rightarrow> EndOfPrd_arrays \<Rightarrow> nat \<Rightarrow> npfloat list" where
  "mNrmFxd_temp p E j = Some 0 # map2 fadd (map Some (aNrmGrid p)) (tl (cNrmFxd_temp p E j))"

definition dvdsFxd_temp :: "solver_args \<Rightarrow> EndOfPrd_arrays \<Rightarrow> nat \<Rightarrow> npfloat list" where
  "dvdsFxd_temp p E j = map Some (EndOfPrd_dvds E ! 0 ! j # column (EndOfPrd_dvds E) j)"

definition cFuncFxd_by_Share :: "solver_args \<Rightarrow> EndOfPrd_arrays \<Rightarrow> func list" where
  "cFuncFxd_by_Share p E =
     map (\<lambda>j. LinearInterp (mNrmFxd_temp p E j) (cNrmFxd_temp p E j) None None) [0..<ShareCount p]"

definition dvdsFuncFxd_by_Share :: "solver_args \<Rightarrow> EndOfPrd_arrays \<Rightarrow> func list" where
  "dvdsFuncFxd_by_Share p E =
     map (\<lambda>j. LinearInterp (mNrmFxd_temp p E j) (dvdsFxd_temp p E j) None None) [0..<ShareCount p]"

definition cFuncFxd_now :: "solver_args \<Rightarrow> EndOfPrd_arrays \<Rightarrow> func" where
  "cFuncFxd_now p E = LinearInterpOnInterp1D (cFuncFxd_by_Share p E) (ShareGrid p)"

definition dvdsFuncFxd_now :: "solver_args \<Rightarrow> EndOfPrd_arrays \<Rightarrow> func" where
  "dvdsFuncFxd_now p E = LinearInterpOnInterp1D (dvdsFuncFxd_by_Share p E) (ShareGrid p)"

definition ShareFuncFxd_now :: func where
  "ShareFuncFxd_now = IdentityFunction 1 2"

definition dvdmFuncFxd_now :: "solver_args \<Rightarrow> EndOfPrd_arrays \<Rightarrow> func" where
  "dvdmFuncFxd_now p E = MargValueFuncCRRA (cFuncFxd_now p E) (CRRA p)"

text \<open>The share function, discrete case (lines 856--861).\<close>

definition mNrmAdj_mid :: "solver_args \<Rightarrow> EndOfPrd_arrays \<Rightarrow> npfloat list" where
  "mNrmAdj_mid p E =
     map2 (\<lambda>x y. fdiv (fadd x y) (Some 2)) (drop 2 (mNrmAdj_now p E)) (butlast (tl (mNrmAdj_now p E)))"

definition mNrmAdj_plus :: "solver_args \<Rightarrow> EndOfPrd_arrays \<Rightarrow> npfloat list" where
  "mNrmAdj_plus p E = map (\<lambda>x. fmul x (Some (1 + 1 / 10 ^ 12))) (mNrmAdj_mid p E)"

definition mNrmAdj_comb :: "solver_args \<Rightarrow> EndOfPrd_arrays \<Rightarrow> npfloat list" where
  "mNrmAdj_comb p E =
     (Some 0 # concat (map2 (\<lambda>x y. [x, y]) (mNrmAdj_mid p E) (mNrmAdj_plus p E)))
       @ [last (mNrmAdj_now p E)]"

definition Share_comb :: "solver_args \<Rightarrow> EndOfPrd_arrays \<Rightarrow> npfloat list" where
  "Share_comb p E = concat (map (\<lambda>s. [s, s]) (ShareAdj_now p E))"

text \<open>The share function, continuous case (lines 865--870); \<open>ShareAdj_ins\<close> is
  \<open>ShareAdj_now\<close> as it stands at line 872, in either case.\<close>

definition Share_lower_bound :: "solver_args \<Rightarrow> real" where
  "Share_lower_bound p = (if BoroCnstNat_iszero p then ShareLimit p else 1)"

definition ShareAdj_ins :: "solver_args \<Rightarrow> EndOfPrd_arrays \<Rightarrow> npfloat list" where
  "ShareAdj_ins p E =
     (if DiscreteShareBool p then ShareAdj_now p E
      else Some (Share_lower_bound p) # ShareAdj_now p E)"

definition ShareFuncAdj_now :: "solver_args \<Rightarrow> EndOfPrd_arrays \<Rightarrow> func" where
  "ShareFuncAdj_now p E =
     (if DiscreteShareBool p
      then LinearInterp (mNrmAdj_comb p E) (Share_comb p E) None None
      else LinearInterp (mNrmAdj_now p E) (ShareAdj_ins p E) (Some (ShareLimit p)) (Some 0))"

section \<open>The saved points and the returned solution (lines 872--950)\<close>

text \<open>The six entries of the dictionary \<^verbatim>\<open>save_points\<close>.\<close>

definition save_points_a :: "solver_args \<Rightarrow> real list" where
  "save_points_a p = aNrmGrid p"

definition save_points_eop_dvda_adj :: "solver_args \<Rightarrow> EndOfPrd_arrays \<Rightarrow> npfloat list" where
  "save_points_eop_dvda_adj p E = map (uFunc_der (CRRA p)) (cNrmAdj_ins p E)"

definition save_points_share_adj :: "solver_args \<Rightarrow> EndOfPrd_arrays \<Rightarrow> npfloat list" where
  "save_points_share_adj p E = ShareAdj_ins p E"

definition save_points_share_grid :: "solver_args \<Rightarrow> real list" where
  "save_points_share_grid p = ShareGrid p"

definition save_points_eop_dvda_fxd :: "solver_args \<Rightarrow> EndOfPrd_arrays \<Rightarrow> npfloat list list" where
  "save_points_eop_dvda_fxd p E = map (map (\<lambda>x. uFunc_der (CRRA p) (Some x))) (EndOfPrd_dvda E)"

definition save_points_eop_dvds_fxd :: "EndOfPrd_arrays \<Rightarrow> real list list" where
  "save_points_eop_dvds_fxd E = EndOfPrd_dvds E"

text \<open>
  The end-of-period value function, built when \<open>vFuncBool\<close> is set: on the independent
  path the bilinear interpolant of the inverse-utility values over the asset and share
  grids (lines 650--654), on the joint path a cubic interpolant over the asset grid for
  each share gridpoint, with linear interpolation between them (lines 744--760).
\<close>

definition EndOfPrd_vNvrs :: "solver_args \<Rightarrow> EndOfPrd_arrays \<Rightarrow> npfloat list list" where
  "EndOfPrd_vNvrs p E = map (map (\<lambda>v. uFunc_inv_np (CRRA p) (Some v))) (the (EndOfPrd_v E))"

definition EndOfPrd_vNvrsP :: "solver_args \<Rightarrow> EndOfPrd_arrays \<Rightarrow> npfloat list list" where
  "EndOfPrd_vNvrsP p E =
     map2 (map2 (\<lambda>dvda v. fmul (Some dvda) (uFunc_invP_np (CRRA p) (Some v))))
       (EndOfPrd_dvda E) (the (EndOfPrd_v E))"

definition EndOfPrd_vNvrsFunc_by_Share :: "solver_args \<Rightarrow> EndOfPrd_arrays \<Rightarrow> func list" where
  "EndOfPrd_vNvrsFunc_by_Share p E =
     map (\<lambda>j. CubicInterp (map Some (aNrmGrid p)) (column (EndOfPrd_vNvrs p E) j)
                 (column (EndOfPrd_vNvrsP p E) j)) [0..<ShareCount p]"

definition EndOfPrd_vNvrsFunc :: "solver_args \<Rightarrow> EndOfPrd_arrays \<Rightarrow> func" where
  "EndOfPrd_vNvrsFunc p E =
     (if IndepDstnBool p
      then BilinearInterp (EndOfPrd_vNvrs p E) (aNrmGrid p) (ShareGrid p)
      else LinearInterpOnInterp1D (EndOfPrd_vNvrsFunc_by_Share p E) (ShareGrid p))"

definition EndOfPrd_vFunc :: "solver_args \<Rightarrow> EndOfPrd_arrays \<Rightarrow> func" where
  "EndOfPrd_vFunc p E = ValueFuncCRRA (EndOfPrd_vNvrsFunc p E) (CRRA p)"

text \<open>A call on arrays whose entries may not be finite, and \<^verbatim>\<open>np.maximum\<close>.\<close>

definition call1_np :: "func \<Rightarrow> npfloat \<Rightarrow> npfloat" where
  "call1_np f m = (case m of None \<Rightarrow> None | Some x \<Rightarrow> call1 f x)"

definition call2_np :: "func \<Rightarrow> npfloat \<Rightarrow> npfloat \<Rightarrow> npfloat" where
  "call2_np f m s =
     (case m of None \<Rightarrow> None | Some x \<Rightarrow> (case s of None \<Rightarrow> None | Some y \<Rightarrow> call2 f x y))"

definition np_maximum :: "npfloat \<Rightarrow> npfloat \<Rightarrow> npfloat" where
  "np_maximum a b =
     (case a of None \<Rightarrow> None | Some x \<Rightarrow> (case b of None \<Rightarrow> None | Some y \<Rightarrow> Some (max x y)))"

text \<open>
  The value function when the agent can adjust (lines 889--903). The names with the
  suffix \<open>Adj\<close> are the arrays \<open>cNrm_temp\<close>, \<open>aNrm_temp\<close>, \<open>Share_temp\<close>, \<open>v_temp\<close>,
  \<open>vNvrs_temp\<close> and \<open>vNvrsP_temp\<close> of these lines, over \<open>mNrm_temp = aXtraGrid\<close>.
\<close>

definition cNrm_tempAdj :: "solver_args \<Rightarrow> EndOfPrd_arrays \<Rightarrow> npfloat list" where
  "cNrm_tempAdj p E = map (call1 (cFuncAdj_now p E)) (aXtraGrid p)"

definition aNrm_tempAdj :: "solver_args \<Rightarrow> EndOfPrd_arrays \<Rightarrow> npfloat list" where
  "aNrm_tempAdj p E =
     map2 (\<lambda>m c. np_maximum (fsub (Some m) c) (Some 0)) (aXtraGrid p) (cNrm_tempAdj p E)"

definition Share_tempAdj :: "solver_args \<Rightarrow> EndOfPrd_arrays \<Rightarrow> npfloat list" where
  "Share_tempAdj p E = map (call1 (ShareFuncAdj_now p E)) (aXtraGrid p)"

definition v_tempAdj :: "solver_args \<Rightarrow> EndOfPrd_arrays \<Rightarrow> npfloat list" where
  "v_tempAdj p E =
     map2 (\<lambda>c (a, share). fadd (uFunc_np (CRRA p) c) (call2_np (EndOfPrd_vFunc p E) a share))
       (cNrm_tempAdj p E) (zip (aNrm_tempAdj p E) (Share_tempAdj p E))"

definition vNvrs_tempAdj :: "solver_args \<Rightarrow> EndOfPrd_arrays \<Rightarrow> npfloat list" where
  "vNvrs_tempAdj p E = map (uFunc_inv_np (CRRA p)) (v_tempAdj p E)"

definition vNvrsP_tempAdj :: "solver_args \<Rightarrow> EndOfPrd_arrays \<Rightarrow> npfloat list" where
  "vNvrsP_tempAdj p E =
     map2 (\<lambda>c v. fmul (uFunc_der (CRRA p) c) (uFunc_invP_np (CRRA p) v))
       (cNrm_tempAdj p E) (v_tempAdj p E)"

definition vNvrsFuncAdj :: "solver_args \<Rightarrow> EndOfPrd_arrays \<Rightarrow> func" where
  "vNvrsFuncAdj p E =
     CubicInterp (Some 0 # map Some (aXtraGrid p))
                 (Some 0 # vNvrs_tempAdj p E)
                 (vNvrsP_tempAdj p E ! 0 # vNvrsP_tempAdj p E)"

definition vFuncAdj_now :: "solver_args \<Rightarrow> EndOfPrd_arrays \<Rightarrow> func" where
  "vFuncAdj_now p E = (if vFuncBool p then ValueFuncCRRA (vNvrsFuncAdj p E) (CRRA p) else NullFunc)"

text \<open>
  The value function when the agent cannot adjust (lines 905--922). Line 906 calls
  \<^verbatim>\<open>np.meshgrid(aXtraGrid, ShareGrid)\<close> without \<^verbatim>\<open>indexing="ij"\<close>, so the arrays
  \<open>mNrm_temp\<close>, \<open>Share_temp\<close> and those computed from them have one row for each share
  gridpoint and one column for each point of \<open>aXtraGrid\<close>. The loop of lines 913--920
  takes the columns \<^verbatim>\<open>mNrm_temp[:, 0]\<close>, \<^verbatim>\<open>vNvrs_temp[:, j]\<close>,
  \<^verbatim>\<open>vNvrsP_temp[:, j]\<close> and the entry \<^verbatim>\<open>vNvrsP_temp[j, 0]\<close> of these arrays.
\<close>

definition cNrm_tempFxd :: "solver_args \<Rightarrow> EndOfPrd_arrays \<Rightarrow> npfloat list list" where
  "cNrm_tempFxd p E =
     on_meshgrid (ShareGrid p) (aXtraGrid p) (\<lambda>share m. call2 (cFuncFxd_now p E) m share)"

definition aNrm_tempFxd :: "solver_args \<Rightarrow> EndOfPrd_arrays \<Rightarrow> npfloat list list" where
  "aNrm_tempFxd p E =
     map (\<lambda>row. map2 (\<lambda>m c. fsub (Some m) c) (aXtraGrid p) row) (cNrm_tempFxd p E)"

definition v_tempFxd :: "solver_args \<Rightarrow> EndOfPrd_arrays \<Rightarrow> npfloat list list" where
  "v_tempFxd p E =
     map2 (\<lambda>share (crow, arow).
             map2 (\<lambda>c a. fadd (uFunc_np (CRRA p) c) (call2_np (EndOfPrd_vFunc p E) a (Some share)))
               crow arow)
       (ShareGrid p) (zip (cNrm_tempFxd p E) (aNrm_tempFxd p E))"

definition vNvrs_tempFxd :: "solver_args \<Rightarrow> EndOfPrd_arrays \<Rightarrow> npfloat list list" where
  "vNvrs_tempFxd p E = map (map (uFunc_inv_np (CRRA p))) (v_tempFxd p E)"

definition vNvrsP_tempFxd :: "solver_args \<Rightarrow> EndOfPrd_arrays \<Rightarrow> npfloat list list" where
  "vNvrsP_tempFxd p E =
     map2 (map2 (\<lambda>c v. fmul (uFunc_der (CRRA p) c) (uFunc_invP_np (CRRA p) v)))
       (cNrm_tempFxd p E) (v_tempFxd p E)"

definition vNvrsFuncFxd_by_Share :: "solver_args \<Rightarrow> EndOfPrd_arrays \<Rightarrow> func list" where
  "vNvrsFuncFxd_by_Share p E =
     map (\<lambda>j. CubicInterp
                 (Some 0 # map (\<lambda>share. Some (aXtraGrid p ! 0)) (ShareGrid p))
                 (Some 0 # column (vNvrs_tempFxd p E) j)
                 (vNvrsP_tempFxd p E ! j ! 0 # column (vNvrsP_tempFxd p E) j))
       [0..<ShareCount p]"

definition vNvrsFuncFxd :: "solver_args \<Rightarrow> EndOfPrd_arrays \<Rightarrow> func" where
  "vNvrsFuncFxd p E = LinearInterpOnInterp1D (vNvrsFuncFxd_by_Share p E) (ShareGrid p)"

definition vFuncFxd_now :: "solver_args \<Rightarrow> EndOfPrd_arrays \<Rightarrow> func" where
  "vFuncFxd_now p E = (if vFuncBool p then ValueFuncCRRA (vNvrsFuncFxd p E) (CRRA p) else NullFunc)"

definition solution_now :: "solver_args \<Rightarrow> EndOfPrd_arrays \<Rightarrow> PortfolioSolution" where
  "solution_now p E =
     (PortfolioSolution_init
        \<lparr> cFuncAdj = Some (cFuncAdj_now p E),
          ShareFuncAdj = Some (ShareFuncAdj_now p E),
          vFuncAdj = Some (vFuncAdj_now p E),
          vPfuncAdj = Some (vPfuncAdj_now p E),
          cFuncFxd = Some (cFuncFxd_now p E),
          ShareFuncFxd = Some ShareFuncFxd_now,
          vFuncFxd = Some (vFuncFxd_now p E),
          dvdmFuncFxd = Some (dvdmFuncFxd_now p E),
          dvdsFuncFxd = Some (dvdsFuncFxd_now p E),
          aGrid = Some (save_points_a p),
          Share_adj = Some (save_points_share_adj p E),
          EndOfPrddvda_adj = Some (save_points_eop_dvda_adj p E),
          ShareGrid = Some (save_points_share_grid p),
          EndOfPrddvda_fxd = Some (save_points_eop_dvda_fxd p E),
          EndOfPrddvds_fxd = Some (save_points_eop_dvds_fxd E),
          AdjPrb = Some (AdjustPrb p) \<rparr>)
     \<lparr> hNrm := Some (hNrmNow p), MPCmin := Some (MPCminNow p) \<rparr>"

section \<open>The period solver\<close>

text \<open>
  An exception of the source is an error value. The two configuration checks come first
  (lines 394--402). The model also writes out where the solver's own lines fail: the
  minimum and the maximum of an empty array of atoms (lines 417, 426--427), the Python
  division \<^verbatim>\<open>1.0 / CRRA\<close> by a zero \<open>CRRA\<close> (line 437), the missing attributes
  \<open>MPCmin\<close> and \<open>hNrm\<close> of \<open>solution_next\<close> (lines 438 and 447, the messages
  written without Python's quotation marks), the first
  element of an empty \<open>aXtraGrid\<close> (line 464), \<^verbatim>\<open>np.argmax\<close> along an empty axis
  (lines 767 and 780) and, when the value functions are built, the first element of an
  empty \<open>vNvrsP_temp\<close> (line 900) and a column \<^verbatim>\<open>vNvrs_temp[:, j]\<close> that the array does
  not have, which happens as soon as \<open>ShareGrid\<close> is longer than \<open>aXtraGrid\<close> (line 917).
  An exception inside the absent libraries is not modelled.
\<close>

datatype error =
  ValueError string | IndexError string | AttributeError string | ZeroDivisionError string

text \<open>The decimal digits of a number, as Python prints it in a message.\<close>

fun str :: "nat \<Rightarrow> string" where
  "str n = (if n < 10 then [char_of (48 + n)] else str (n div 10) @ [char_of (48 + n mod 10)])"

definition solve_one_period_ConsPortfolio :: "solver_args \<Rightarrow> error + PortfolioSolution" where
  "solve_one_period_ConsPortfolio p =
     (if BoroCnstArt p \<noteq> Some 0
      then Inl (ValueError ''PortfolioConsumerType must have BoroCnstArt=0.0!'')
      else if DiscreteShareBool p \<and> \<not> vFuncBool p
      then Inl (ValueError ''PortfolioConsumerType requires vFuncBool to be True when DiscreteShareBool is True!'')
      else if IncShkDstn p = []
      then Inl (ValueError ''zero-size array to reduction operation minimum which has no identity'')
      else if RiskyDstn p = []
      then Inl (ValueError ''zero-size array to reduction operation maximum which has no identity'')
      else if CRRA p = 0
      then Inl (ZeroDivisionError ''float division by zero'')
      else if MPCmin (solution_next p) = None
      then Inl (AttributeError ''PortfolioSolution object has no attribute MPCmin'')
      else if hNrm (solution_next p) = None
      then Inl (AttributeError ''PortfolioSolution object has no attribute hNrm'')
      else if BoroCnstNat_iszero p \<and> aXtraGrid p = []
      then Inl (IndexError ''index 0 is out of bounds for axis 0 with size 0'')
      else if (if DiscreteShareBool p then ShareCount p = 0 else ShareCount p < 2)
      then Inl (ValueError ''attempt to get argmax of an empty sequence'')
      else if vFuncBool p \<and> aXtraGrid p = []
      then Inl (IndexError ''index 0 is out of bounds for axis 0 with size 0'')
      else if vFuncBool p \<and> length (aXtraGrid p) < ShareCount p
      then Inl (IndexError (''index '' @ str (length (aXtraGrid p))
                            @ '' is out of bounds for axis 1 with size '' @ str (length (aXtraGrid p))))
      else Inr (solution_now p (end_of_period p)))"

section \<open>Comparing the two paths\<close>





section \<open>The sign flip as the specification words it\<close>

text \<open>
  The specification places the sign flip of a row at the last index where a value of at
  least 0 is followed by a value of at most 0. The definitions below follow these words,
  to be compared with \<open>share_idx\<close>, \<open>alpha\<close>, \<open>ShareAdj_continuous\<close> and
  \<open>cNrmAdj_continuous\<close>, which follow the source.
\<close>

definition share_idx_spec :: "real list \<Rightarrow> nat" where
  "share_idx_spec FOC_s = last (filter (\<lambda>k. crossing FOC_s ! k) [0 ..< length (crossing FOC_s)])"

definition alpha_spec :: "real list \<Rightarrow> npfloat" where
  "alpha_spec FOC_s =
     (let bot_f = FOC_s ! share_idx_spec FOC_s;
          top_f = FOC_s ! (share_idx_spec FOC_s + 1)
      in fsub (Some 1) (fdiv (Some top_f) (Some (top_f - bot_f))))"

definition ShareAdj_spec :: "real list \<Rightarrow> real list \<Rightarrow> npfloat" where
  "ShareAdj_spec share_grid FOC_s =
     (let bot_s = share_grid ! share_idx_spec FOC_s;
          top_s = share_grid ! (share_idx_spec FOC_s + 1)
      in fadd (fmul (fsub (Some 1) (alpha_spec FOC_s)) (Some bot_s))
              (fmul (alpha_spec FOC_s) (Some top_s)))"

definition cNrmAdj_spec :: "npfloat list \<Rightarrow> real list \<Rightarrow> npfloat" where
  "cNrmAdj_spec EndOfPrd_dvdaNvrs_row FOC_s =
     (let bot_c = EndOfPrd_dvdaNvrs_row ! share_idx_spec FOC_s;
          top_c = EndOfPrd_dvdaNvrs_row ! (share_idx_spec FOC_s + 1)
      in fadd (fmul (fsub (Some 1) (alpha_spec FOC_s)) bot_c)
              (fmul (alpha_spec FOC_s) top_c))"

section \<open>A worked period\<close>

text \<open>
  One backward step from the terminal solution, used to run the solver on concrete
  numbers: risk aversion 2, no income risk (the only income shock is 1, so the natural
  borrowing constraint is not zero), a risk-free factor of 1 and a risky asset that
  returns 1/4 for certain, one asset gridpoint 3/4 beside the zero that the solver adds,
  the share grid [0, 1], continuous share choice on the joint path, no value function.
\<close>

definition example_args :: solver_args where
  "example_args =
     \<lparr> solution_next = update_solution_terminal 2,
       ShockDstn = [(1, \<lparr> PermShk = 1, TranShk = 1, Risky = 1/4 \<rparr>)],
       IncShkDstn = [(1, \<lparr> PermShk = 1, TranShk = 1 \<rparr>)],
       RiskyDstn = [(1, 1/4)],
       LivPrb = 1, DiscFac = 1, CRRA = 2, Rfree = 1, PermGroFac = 1,
       BoroCnstArt = Some 0,
       aXtraGrid = [3/4],
       ShareGrid = [0, 1],
       AdjustPrb = 1, ShareLimit = 0,
       vFuncBool = False, DiscreteShareBool = False, IndepDstnBool = False \<rparr>"

text \<open>The same period when the only transitory shock is zero, so that the natural
  borrowing constraint is zero.\<close>

definition example_zero_shock :: solver_args where
  "example_zero_shock = example_args
     \<lparr> ShockDstn := [(1, \<lparr> PermShk = 1, TranShk = 0, Risky = 1/4 \<rparr>)],
       IncShkDstn := [(1, \<lparr> PermShk = 1, TranShk = 0 \<rparr>)] \<rparr>"

text \<open>The worked period with a risky asset that returns the risk-free factor 1 for
  certain.\<close>

definition example_flat :: solver_args where
  "example_flat = example_args
     \<lparr> ShockDstn := [(1, \<lparr> PermShk = 1, TranShk = 1, Risky = 1 \<rparr>)],
       RiskyDstn := [(1, 1)] \<rparr>"



section \<open>Facts about the model\<close>

lemma terminal_fields:
  "cFuncAdj (update_solution_terminal rho) = Some (IdentityFunction 0 1)"
  "ShareFuncAdj (update_solution_terminal rho) = Some (ConstantFunction 0)"
  "vFuncAdj (update_solution_terminal rho) = Some (ValueFuncCRRA (IdentityFunction 0 1) rho)"
  "vPfuncAdj (update_solution_terminal rho) = Some (MargValueFuncCRRA (IdentityFunction 0 1) rho)"
  "cFuncFxd (update_solution_terminal rho) = Some (IdentityFunction 0 2)"
  "ShareFuncFxd (update_solution_terminal rho) = Some (IdentityFunction 1 2)"
  "vFuncFxd (update_solution_terminal rho) = Some (ValueFuncCRRA (IdentityFunction 0 2) rho)"
  "dvdmFuncFxd (update_solution_terminal rho) = Some (MargValueFuncCRRA (IdentityFunction 0 2) rho)"
  "dvdsFuncFxd (update_solution_terminal rho) = Some (ConstantFunction 0)"
  "hNrm (update_solution_terminal rho) = Some 0"
  "MPCmin (update_solution_terminal rho) = Some 1"
  by (simp_all add: update_solution_terminal_def PortfolioSolution_init_def no_args_def or_NullFunc_def Let_def)

lemma ex_fields:
  "solution_next example_args = update_solution_terminal 2"
  "ShockDstn example_args = [(1, \<lparr> PermShk = 1, TranShk = 1, Risky = 1/4 \<rparr>)]"
  "IncShkDstn example_args = [(1, \<lparr> PermShk = 1, TranShk = 1 \<rparr>)]"
  "RiskyDstn example_args = [(1, 1/4)]"
  "LivPrb example_args = 1" "DiscFac example_args = 1" "CRRA example_args = 2"
  "Rfree example_args = 1" "PermGroFac example_args = 1"
  "BoroCnstArt example_args = Some 0"
  "aXtraGrid example_args = [3/4]"
  "solver_args.ShareGrid example_args = [0, 1]"
  "AdjustPrb example_args = 1" "ShareLimit example_args = 0"
  "vFuncBool example_args = False" "DiscreteShareBool example_args = False"
  "IndepDstnBool example_args = False"
  by (simp_all add: example_args_def)

lemma ex_iszero: "\<not> BoroCnstNat_iszero example_args"
  by (simp add: BoroCnstNat_iszero_def ex_fields)

lemma ex_aNrmGrid: "aNrmGrid example_args = [0, 3/4]"
  by (simp add: aNrmGrid_def ex_iszero ex_fields)

lemma ex_vP: "0 < m \<Longrightarrow> vPfuncAdj_next example_args m = 1 / m^2"
  by (simp add: vPfuncAdj_next_def value1_def ex_fields terminal_fields
      uFunc_der_def uFunc_der_real_def powr_minus powr_numeral divide_simps)

lemma ex_dvda: "EndOfPrd_dvda_joint example_args = [[1, 1/4], [16/49, 64/361]]"
  by (simp add: EndOfPrd_dvda_joint_def on_meshgrid_def ex_aNrmGrid expected_def calc_EndOfPrd_dvdx_def calc_mNrm_next_joint_def Let_def  DiscFacEff_def ex_fields ex_vP power2_eq_square)

lemma ex_dvds: "EndOfPrd_dvds_joint example_args = [[0, 0], [-9/49, -144/361]]"
  by (simp add: EndOfPrd_dvds_joint_def on_meshgrid_def ex_aNrmGrid expected_def calc_EndOfPrd_dvdx_def calc_mNrm_next_joint_def Let_def  DiscFacEff_def ex_fields ex_vP power2_eq_square)

lemma ex_E: "end_of_period example_args = \<lparr> EndOfPrd_dvda = [[1, 1/4], [16/49, 64/361]], EndOfPrd_dvds = [[0, 0], [-9/49, -144/361]], EndOfPrd_v = None \<rparr>"
  by (simp add: end_of_period_def ex_fields ex_dvda ex_dvds)

lemma sqrt_helper: "0 < x \<Longrightarrow> uFunc_derinv 2 (1 / x^2) = Some x"
  by (simp add: uFunc_derinv_def uFunc_derinv_real_def powr_minus powr_half_sqrt real_sqrt_divide)

lemma ex_Nvrs: "EndOfPrd_dvdaNvrs example_args (end_of_period example_args) = [[Some 1, Some 2], [Some (7/4), Some (19/8)]]"
proof -
  have "uFunc_derinv 2 (1 / 1^2) = Some 1" "uFunc_derinv 2 (1 / (2::real)^2) = Some 2"
    "uFunc_derinv 2 (1 / (7/4::real)^2) = Some (7/4)"  "uFunc_derinv 2 (1 / (19/8::real)^2) = Some (19/8)"
    by (rule sqrt_helper, simp)+
  then show ?thesis
    by (simp add: EndOfPrd_dvdaNvrs_def ex_E ex_fields power2_eq_square)
qed

lemma ex_share: "ShareAdj_now example_args (end_of_period example_args) = [Some 1, Some 0]"
  by (simp add: ShareAdj_now_def ShareAdj_opt_def ex_iszero ex_fields ex_E ShareAdj_continuous_def constrained_bot_def constrained_top_def Let_def)

lemma ex_c: "cNrmAdj_now example_args (end_of_period example_args) = [Some 2, Some (7/4)]"
  apply (simp add: cNrmAdj_now_def cNrmAdj_opt_def ex_iszero ex_fields ex_Nvrs)
  apply (simp add: ex_E cNrmAdj_continuous_def constrained_bot_def constrained_top_def Let_def)
  done


lemma ex_asym: "MPCminNow example_args = 1/2" "hNrmNow example_args = 1" "cFuncLimitIntercept example_args = 1/2"
  by (simp_all add: cFuncLimitIntercept_def MPCminNow_def hNrmNow_def PatFac_def R_adj_def calc_Radj_def calc_hNrm_def expected_def DiscFacEff_def ex_fields terminal_fields Let_def)

lemma ex_solve: "solve_one_period_ConsPortfolio example_args = Inr (solution_now example_args (end_of_period example_args))"
  by (simp add: solve_one_period_ConsPortfolio_def ex_fields ex_iszero terminal_fields ShareCount_def)


lemma solve_Inr:
  assumes "solve_one_period_ConsPortfolio p = Inr s"
  shows "s = solution_now p (end_of_period p)"
    and "BoroCnstArt p = Some 0"
    and "DiscreteShareBool p \<longrightarrow> vFuncBool p"
    and "IncShkDstn p \<noteq> []"
    and "RiskyDstn p \<noteq> []"
    and "BoroCnstNat_iszero p \<longrightarrow> aXtraGrid p \<noteq> []"
    and "if DiscreteShareBool p then 0 < ShareCount p else 2 \<le> ShareCount p"
  using assms by (auto simp: solve_one_period_ConsPortfolio_def split: if_splits)

lemma solution_now_fields:
  "cFuncAdj (solution_now p E) = Some (cFuncAdj_now p E)"
  "ShareFuncAdj (solution_now p E) = Some (ShareFuncAdj_now p E)"
  "vFuncAdj (solution_now p E) = Some (vFuncAdj_now p E)"
  "vPfuncAdj (solution_now p E) = Some (vPfuncAdj_now p E)"
  "cFuncFxd (solution_now p E) = Some (cFuncFxd_now p E)"
  "ShareFuncFxd (solution_now p E) = Some ShareFuncFxd_now"
  "vFuncFxd (solution_now p E) = Some (vFuncFxd_now p E)"
  "dvdmFuncFxd (solution_now p E) = Some (dvdmFuncFxd_now p E)"
  "dvdsFuncFxd (solution_now p E) = Some (dvdsFuncFxd_now p E)"
  "aGrid (solution_now p E) = Some (aNrmGrid p)"
  "Share_adj (solution_now p E) = Some (ShareAdj_ins p E)"
  "EndOfPrddvda_adj (solution_now p E) = Some (map (uFunc_der (CRRA p)) (cNrmAdj_ins p E))"
  "PortfolioSolution_args.ShareGrid (solution_now p E) = Some (solver_args.ShareGrid p)"
  "EndOfPrddvda_fxd (solution_now p E) = Some (map (map (\<lambda>x. uFunc_der (CRRA p) (Some x))) (EndOfPrd_dvda E))"
  "EndOfPrddvds_fxd (solution_now p E) = Some (EndOfPrd_dvds E)"
  "AdjPrb (solution_now p E) = Some (AdjustPrb p)"
  "hNrm (solution_now p E) = Some (hNrmNow p)"
  "MPCmin (solution_now p E) = Some (MPCminNow p)"
  by (simp_all add: solution_now_def PortfolioSolution_init_def or_NullFunc_def
      save_points_a_def save_points_share_adj_def save_points_eop_dvda_adj_def
      save_points_share_grid_def save_points_eop_dvda_fxd_def save_points_eop_dvds_fxd_def)

lemma end_of_period_shape:
  "length (EndOfPrd_dvda (end_of_period p)) = length (aNrmGrid p)"
  "length (EndOfPrd_dvds (end_of_period p)) = length (aNrmGrid p)"
  "vFuncBool p \<Longrightarrow> length (the (EndOfPrd_v (end_of_period p))) = length (aNrmGrid p)"
  by (simp_all add: end_of_period_def on_meshgrid_def EndOfPrd_dvda_indep_def EndOfPrd_dvda_joint_def
      EndOfPrd_dvds_indep_def EndOfPrd_dvds_joint_def EndOfPrd_v_indep_def EndOfPrd_v_joint_def)

lemma end_of_period_rows:
  "i < length (aNrmGrid p) \<Longrightarrow> length (EndOfPrd_dvda (end_of_period p) ! i) = ShareCount p"
  "i < length (aNrmGrid p) \<Longrightarrow> length (EndOfPrd_dvds (end_of_period p) ! i) = ShareCount p"
  "vFuncBool p \<Longrightarrow> i < length (aNrmGrid p) \<Longrightarrow> length (the (EndOfPrd_v (end_of_period p)) ! i) = ShareCount p"
  by (simp_all add: end_of_period_def on_meshgrid_def EndOfPrd_dvda_indep_def EndOfPrd_dvda_joint_def
      EndOfPrd_dvds_indep_def EndOfPrd_dvds_joint_def EndOfPrd_v_indep_def EndOfPrd_v_joint_def ShareCount_def)

lemma opt_lengths:
  assumes "DiscreteShareBool p \<longrightarrow> vFuncBool p"
  shows "length (ShareAdj_opt p (end_of_period p)) = length (aNrmGrid p)"
    and "length (cNrmAdj_opt p (end_of_period p)) = length (aNrmGrid p)"
  using assms
  by (auto simp: ShareAdj_opt_def cNrmAdj_opt_def end_of_period_shape EndOfPrd_dvdaNvrs_def)

lemma now_lengths:
  assumes "DiscreteShareBool p \<longrightarrow> vFuncBool p"
  shows "length (ShareAdj_now p (end_of_period p)) = length (aNrmGrid p)"
    and "length (cNrmAdj_now p (end_of_period p)) = length (aNrmGrid p)"
  using opt_lengths[OF assms] by (simp_all add: ShareAdj_now_def cNrmAdj_now_def)

lemma argmax_less: "bs \<noteq> [] \<Longrightarrow> argmax bs < length bs"
  by (induction bs rule: argmax.induct) (auto simp: Let_def)

lemma argmax_first_True:
  "True \<in> set bs \<Longrightarrow> bs ! argmax bs \<and> (\<forall>j < argmax bs. \<not> bs ! j)"
proof (induction bs rule: argmax.induct)
  case 1
  then show ?case by simp
next
  case (2 x)
  then show ?case by simp
next
  case (3 x y ys)
  show ?case
  proof (cases x)
    case True
    then show ?thesis by (simp add: Let_def)
  next
    case False
    with "3.prems" have "True \<in> set (y # ys)" by auto
    with "3.IH" have ih: "(y # ys) ! argmax (y # ys)" "\<forall>j < argmax (y # ys). \<not> (y # ys) ! j"
      by auto
    from False ih(1) have eq: "argmax (x # y # ys) = Suc (argmax (y # ys))"
      by (simp add: Let_def)
    show ?thesis
      unfolding eq using ih False by (auto simp: less_Suc_eq_0_disj)
  qed
qed

lemma length_crossing: "length (crossing FOC_s) = length FOC_s - 1"
  by (simp add: crossing_def)

lemma nth_crossing:
  "j + 1 < length FOC_s \<Longrightarrow> crossing FOC_s ! j = (FOC_s ! (j + 1) \<le> 0 \<and> 0 \<le> FOC_s ! j)"
  by (simp add: crossing_def nth_tl nth_butlast)

lemma share_idx_in_range: "2 \<le> length FOC_s \<Longrightarrow> share_idx FOC_s + 1 < length FOC_s"
proof -
  assume a: "2 \<le> length FOC_s"
  then have "crossing FOC_s \<noteq> []" using length_crossing [of FOC_s] by auto
  from argmax_less [OF this] show ?thesis
    by (simp add: share_idx_def length_crossing)
qed

lemma share_idx_crossing:
  assumes "k + 1 < length FOC_s" "0 \<le> FOC_s ! k" "FOC_s ! (k + 1) \<le> 0"
  shows "0 \<le> FOC_s ! share_idx FOC_s \<and> FOC_s ! (share_idx FOC_s + 1) \<le> 0
         \<and> (\<forall>j < share_idx FOC_s. \<not> (0 \<le> FOC_s ! j \<and> FOC_s ! (j + 1) \<le> 0))"
proof -
  have len: "2 \<le> length FOC_s" using assms(1) by simp
  have "k < length (crossing FOC_s)" using assms(1) by (simp add: length_crossing)
  moreover have "crossing FOC_s ! k" using assms by (simp add: nth_crossing)
  ultimately have "True \<in> set (crossing FOC_s)"
    by (metis nth_mem)
  from argmax_first_True [OF this]
  have 1: "crossing FOC_s ! share_idx FOC_s" and 2: "\<forall>j < share_idx FOC_s. \<not> crossing FOC_s ! j"
    by (simp_all add: share_idx_def)
  have r: "share_idx FOC_s + 1 < length FOC_s" by (rule share_idx_in_range [OF len])
  have "\<forall>j < share_idx FOC_s. \<not> (0 \<le> FOC_s ! j \<and> FOC_s ! (j + 1) \<le> 0)"
  proof (intro allI impI)
    fix j assume j: "j < share_idx FOC_s"
    then have "j + 1 < length FOC_s" using r by simp
    from nth_crossing [OF this] 2 j show "\<not> (0 \<le> FOC_s ! j \<and> FOC_s ! (j + 1) \<le> 0)" by auto
  qed
  with 1 nth_crossing [OF r] show ?thesis by auto
qed

lemma sign_flip_exists:
  "2 \<le> length FOC_s \<Longrightarrow> 0 \<le> hd FOC_s \<Longrightarrow> last FOC_s \<le> 0
   \<Longrightarrow> \<exists>k. k + 1 < length FOC_s \<and> 0 \<le> FOC_s ! k \<and> FOC_s ! (k + 1) \<le> (0::real)"
proof (induction FOC_s)
  case Nil
  then show ?case by simp
next
  case (Cons x xs)
  then obtain y ys where xs: "xs = y # ys" by (cases xs) auto
  show ?case
  proof (cases "y \<le> 0")
    case True
    with Cons.prems xs have "0 + 1 < length (x # xs) \<and> 0 \<le> (x # xs) ! 0 \<and> (x # xs) ! (0 + 1) \<le> 0"
      by simp
    then show ?thesis by blast
  next
    case False
    with Cons.prems xs have "ys \<noteq> []" by auto
    with Cons.prems xs False have "2 \<le> length xs" "0 \<le> hd xs" "last xs \<le> 0"
      by (auto simp: Suc_le_eq)
    from Cons.IH [OF this] obtain k where "k + 1 < length xs" "0 \<le> xs ! k" "xs ! (k + 1) \<le> 0"
      by blast
    then have "Suc k + 1 < length (x # xs) \<and> 0 \<le> (x # xs) ! Suc k \<and> (x # xs) ! (Suc k + 1) \<le> 0"
      by simp
    then show ?thesis by blast
  qed
qed

lemma share_idx_example: "share_idx [2, 1, - 1, - 3] = 1"
  by (simp add: share_idx_def crossing_def Let_def)

lemma ex_zero_solve:
  "solve_one_period_ConsPortfolio example_zero_shock
     = Inr (solution_now example_zero_shock (end_of_period example_zero_shock))"
  by (simp add: solve_one_period_ConsPortfolio_def example_zero_shock_def ex_fields terminal_fields
      ShareCount_def BoroCnstNat_iszero_def)

lemma ex_der: "0 < x \<Longrightarrow> uFunc_der 2 (Some x) = Some (1 / x^2)"
  by (simp add: uFunc_der_def uFunc_der_real_def powr_minus divide_simps)


















lemma fl_fields:
  "solution_next example_flat = update_solution_terminal 2"
  "ShockDstn example_flat = [(1, \<lparr> PermShk = 1, TranShk = 1, Risky = 1 \<rparr>)]"
  "IncShkDstn example_flat = [(1, \<lparr> PermShk = 1, TranShk = 1 \<rparr>)]"
  "RiskyDstn example_flat = [(1, 1)]"
  "LivPrb example_flat = 1" "DiscFac example_flat = 1" "CRRA example_flat = 2"
  "Rfree example_flat = 1" "PermGroFac example_flat = 1"
  "BoroCnstArt example_flat = Some 0"
  "aXtraGrid example_flat = [3/4]"
  "solver_args.ShareGrid example_flat = [0, 1]"
  "AdjustPrb example_flat = 1" "ShareLimit example_flat = 0"
  "vFuncBool example_flat = False" "DiscreteShareBool example_flat = False"
  "IndepDstnBool example_flat = False"
  by (simp_all add: example_flat_def ex_fields)

lemma fl_iszero: "\<not> BoroCnstNat_iszero example_flat"
  by (simp add: BoroCnstNat_iszero_def fl_fields)

lemma fl_aNrmGrid: "aNrmGrid example_flat = [0, 3/4]"
  by (simp add: aNrmGrid_def fl_iszero fl_fields)

lemma fl_vP: "0 < m \<Longrightarrow> vPfuncAdj_next example_flat m = 1 / m^2"
  by (simp add: vPfuncAdj_next_def value1_def fl_fields terminal_fields
      uFunc_der_def uFunc_der_real_def powr_minus powr_numeral divide_simps)

lemma fl_E:
  "end_of_period example_flat
     = \<lparr> EndOfPrd_dvda = [[1, 1], [16/49, 16/49]],
         EndOfPrd_dvds = [[0, 0], [0, 0]],
         EndOfPrd_v = None \<rparr>"
  by (simp add: end_of_period_def EndOfPrd_dvda_joint_def EndOfPrd_dvds_joint_def on_meshgrid_def
      fl_aNrmGrid expected_def calc_EndOfPrd_dvdx_def calc_mNrm_next_joint_def Let_def
      DiscFacEff_def fl_fields fl_vP power2_eq_square)

lemma fl_Nvrs:
  "EndOfPrd_dvdaNvrs example_flat (end_of_period example_flat)
     = [[Some 1, Some 1], [Some (7/4), Some (7/4)]]"
proof -
  have "uFunc_derinv 2 (1 / 1^2) = Some 1" "uFunc_derinv 2 (1 / (7/4::real)^2) = Some (7/4)"
    by (rule sqrt_helper, simp)+
  then show ?thesis
    by (simp add: EndOfPrd_dvdaNvrs_def fl_E fl_fields power2_eq_square)
qed

lemma fl_alpha: "alpha [0, 0] = None"
  by (simp add: alpha_def share_idx_def crossing_def fdiv_def fsub_def)

lemma fl_share: "ShareAdj_now example_flat (end_of_period example_flat) = [Some 1, None]"
  by (simp add: ShareAdj_now_def ShareAdj_opt_def fl_iszero fl_fields fl_E ShareAdj_continuous_def
      constrained_bot_def constrained_top_def Let_def fl_alpha fsub_def fmul_def fadd_def)

lemma fl_c: "cNrmAdj_now example_flat (end_of_period example_flat) = [Some 1, None]"
  apply (simp add: cNrmAdj_now_def cNrmAdj_opt_def fl_iszero fl_fields fl_Nvrs)
  apply (simp add: fl_E cNrmAdj_continuous_def constrained_bot_def constrained_top_def Let_def
      fl_alpha fsub_def fmul_def fadd_def)
  done

lemma fl_m: "mNrmAdj_now example_flat (end_of_period example_flat) = [Some 0, Some 1, None]"
  by (simp add: mNrmAdj_now_def fl_c fl_aNrmGrid fadd_def)

lemma fl_solve:
  "solve_one_period_ConsPortfolio example_flat
     = Inr (solution_now example_flat (end_of_period example_flat))"
  by (simp add: solve_one_period_ConsPortfolio_def fl_fields fl_iszero terminal_fields ShareCount_def)




























text \<open>A share that is a number lies between the ends of the share grid.\<close>

lemma ShareAdj_continuous_unit:
  assumes len: "2 \<le> length FOC_s" "length share_grid = length FOC_s"
    and grid: "\<forall>s \<in> set share_grid. 0 \<le> s \<and> s \<le> 1"
    and v: "ShareAdj_continuous share_grid FOC_s = Some v"
  shows "0 \<le> v \<and> v \<le> 1"
proof (cases "constrained_bot FOC_s \<or> constrained_top FOC_s")
  case True
  with v show ?thesis
    by (auto simp: ShareAdj_continuous_def Let_def split: if_splits)
next
  case False
  let ?k = "share_idx FOC_s"
  let ?bot = "FOC_s ! ?k" and ?top = "FOC_s ! (?k + 1)"
  have r: "?k + 1 < length FOC_s" by (rule share_idx_in_range [OF len(1)])
  from False have "0 \<le> hd FOC_s" "last FOC_s \<le> 0"
    by (simp_all add: constrained_bot_def constrained_top_def)
  from sign_flip_exists [OF len(1) this] share_idx_crossing
  have c: "0 \<le> ?bot" "?top \<le> 0" by blast+
  from False v have e: "fadd (fmul (fsub (Some 1) (alpha FOC_s)) (Some (share_grid ! ?k)))
      (fmul (alpha FOC_s) (Some (share_grid ! (?k + 1)))) = Some v"
    by (simp add: ShareAdj_continuous_def Let_def)
  then obtain al where al: "alpha FOC_s = Some al"
    by (cases "alpha FOC_s") (auto simp: fadd_def fmul_def fsub_def)
  then have ne: "?top \<noteq> ?bot" and al_eq: "al = 1 - ?top / (?top - ?bot)"
    by (auto simp: alpha_def Let_def fsub_def fdiv_def split: if_splits)
  have d: "?top - ?bot < 0" using c ne by simp
  have "0 \<le> ?top / (?top - ?bot)" using c(2) d by (simp add: divide_nonpos_neg)
  moreover have "?top / (?top - ?bot) \<le> 1" using c(1) d by (simp add: neg_divide_le_eq)
  ultimately have a01: "0 \<le> al" "al \<le> 1" by (simp_all add: al_eq)
  have s1: "0 \<le> share_grid ! ?k \<and> share_grid ! ?k \<le> 1"
    and s2: "0 \<le> share_grid ! (?k + 1) \<and> share_grid ! (?k + 1) \<le> 1"
    using grid r len(2) by (simp_all add: less_imp_diff_less)
  from e al have veq: "v = (1 - al) * share_grid ! ?k + al * share_grid ! (?k + 1)"
    by (simp add: fadd_def fmul_def fsub_def)
  have "0 \<le> (1 - al) * share_grid ! ?k + al * share_grid ! (?k + 1)"
    using a01 s1 s2 by simp
  moreover have "(1 - al) * share_grid ! ?k + al * share_grid ! (?k + 1) \<le> (1 - al) * 1 + al * 1"
    using a01 s1 s2 by (intro add_mono mult_left_mono) auto
  ultimately show ?thesis by (simp add: veq)
qed

lemma ShareAdj_discrete_unit:
  assumes "EndOfPrd_v_row \<noteq> []" "length share_grid = length EndOfPrd_v_row"
    and "\<forall>s \<in> set share_grid. 0 \<le> s \<and> s \<le> 1"
    and "ShareAdj_discrete share_grid EndOfPrd_v_row = Some v"
  shows "0 \<le> v \<and> v \<le> 1"
  using assms argmax_less [OF assms(1)]
  by (auto simp: ShareAdj_discrete_def opt_idx_def)

lemma share_nodes_unit:
  assumes r: "solve_one_period_ConsPortfolio p = Inr s"
    and grid: "\<forall>z \<in> set (solver_args.ShareGrid p). 0 \<le> z \<and> z \<le> 1"
    and lim: "0 \<le> ShareLimit p" "ShareLimit p \<le> 1"
    and x: "Some v \<in> set (ShareAdj_ins p (end_of_period p))"
  shows "0 \<le> v \<and> v \<le> 1"
proof -
  note R = solve_Inr [OF r]
  have opt: "0 \<le> v \<and> v \<le> 1" if "Some v \<in> set (ShareAdj_opt p (end_of_period p))"
  proof (cases "DiscreteShareBool p")
    case True
    with R(3) have vb: "vFuncBool p" by simp
    from that True obtain i where i: "i < length (the (EndOfPrd_v (end_of_period p)))"
      and e: "ShareAdj_discrete (solver_args.ShareGrid p) (the (EndOfPrd_v (end_of_period p)) ! i) = Some v"
      by (auto simp: ShareAdj_opt_def in_set_conv_nth)
    from i have i': "i < length (aNrmGrid p)" by (simp add: end_of_period_shape(3) [OF vb])
    have l: "length (the (EndOfPrd_v (end_of_period p)) ! i) = ShareCount p"
      by (rule end_of_period_rows(3) [OF vb i'])
    moreover have "0 < ShareCount p" using R(7) True by simp
    ultimately have "the (EndOfPrd_v (end_of_period p)) ! i \<noteq> []" by auto
    from ShareAdj_discrete_unit [OF this _ grid e] l show ?thesis by (simp add: ShareCount_def)
  next
    case False
    from that False obtain i where i: "i < length (EndOfPrd_dvds (end_of_period p))"
      and e: "ShareAdj_continuous (solver_args.ShareGrid p) (EndOfPrd_dvds (end_of_period p) ! i) = Some v"
      by (auto simp: ShareAdj_opt_def in_set_conv_nth)
    from i have i': "i < length (aNrmGrid p)" by (simp add: end_of_period_shape(2))
    have l: "length (EndOfPrd_dvds (end_of_period p) ! i) = ShareCount p"
      by (rule end_of_period_rows(2) [OF i'])
    moreover have "2 \<le> ShareCount p" using R(7) False by simp
    ultimately have "2 \<le> length (EndOfPrd_dvds (end_of_period p) ! i)" by simp
    from ShareAdj_continuous_unit [OF this _ grid e] l show ?thesis by (simp add: ShareCount_def)
  qed
  have now: "0 \<le> v \<and> v \<le> 1" if "Some v \<in> set (ShareAdj_now p (end_of_period p))"
  proof (cases "BoroCnstNat_iszero p")
    case True
    with that opt show ?thesis by (simp add: ShareAdj_now_def)
  next
    case False
    with that have "Some v \<in> insert (Some 1) (set (ShareAdj_opt p (end_of_period p)))"
      using set_update_subset_insert [of "ShareAdj_opt p (end_of_period p)" 0 "Some 1"]
      by (auto simp: ShareAdj_now_def)
    with opt show ?thesis by auto
  qed
  from x now lim show ?thesis
    by (auto simp: ShareAdj_ins_def Share_lower_bound_def split: if_splits)
qed
























section \<open>The claims\<close>

text \<open>
  C5. The solver raises a configuration error, a \<open>ValueError\<close> whose message names the
  violated requirement, exactly when \<open>BoroCnstArt\<close> is not 0.0 (the first message; this
  includes \<open>BoroCnstArt = None\<close>) or, \<open>BoroCnstArt\<close> being 0.0, \<open>DiscreteShareBool\<close> is set
  while \<open>vFuncBool\<close> is not (the second message). Both checks precede every other step:
  the result is then the error and no solution, and whenever a solution is returned
  neither condition held. The other \<open>ValueError\<close>s of the model are numpy's, with
  numpy's messages.
\<close>

theorem configuration_errors:
  "(solve_one_period_ConsPortfolio p
      = Inl (ValueError ''PortfolioConsumerType must have BoroCnstArt=0.0!'')
      \<longleftrightarrow> BoroCnstArt p \<noteq> Some 0)
   \<and> (solve_one_period_ConsPortfolio p
      = Inl (ValueError ''PortfolioConsumerType requires vFuncBool to be True when DiscreteShareBool is True!'')
      \<longleftrightarrow> BoroCnstArt p = Some 0 \<and> DiscreteShareBool p \<and> \<not> vFuncBool p)
   \<and> ((\<exists>s. solve_one_period_ConsPortfolio p = Inr s)
      \<longrightarrow> BoroCnstArt p = Some 0 \<and> \<not> (DiscreteShareBool p \<and> \<not> vFuncBool p))"
  by (auto simp: solve_one_period_ConsPortfolio_def split: if_splits)

theorem configuration_errors_witness:
  "BoroCnstArt (example_args \<lparr> BoroCnstArt := None \<rparr>) \<noteq> Some 0
   \<and> solve_one_period_ConsPortfolio (example_args \<lparr> BoroCnstArt := None \<rparr>)
       = Inl (ValueError ''PortfolioConsumerType must have BoroCnstArt=0.0!'')
   \<and> BoroCnstArt (example_args \<lparr> DiscreteShareBool := True \<rparr>) = Some 0
   \<and> solve_one_period_ConsPortfolio (example_args \<lparr> DiscreteShareBool := True \<rparr>)
       = Inl (ValueError ''PortfolioConsumerType requires vFuncBool to be True when DiscreteShareBool is True!'')
   \<and> (\<exists>s. solve_one_period_ConsPortfolio example_args = Inr s)
   \<and> BoroCnstArt example_args = Some 0"
  using configuration_errors [of "example_args \<lparr> BoroCnstArt := None \<rparr>"]
    configuration_errors [of "example_args \<lparr> DiscreteShareBool := True \<rparr>"]
    configuration_errors [of example_args]
    ex_solve
  by (simp add: ex_fields)

text \<open>
  C10. \<open>PortfolioSolution_init\<close> leaves none of the nine function fields \<open>None\<close>: an
  argument passed as \<open>None\<close> becomes \<open>NullFunc\<close>. A solution returned by the solver with
  \<open>vFuncBool\<close> false has \<open>NullFunc\<close> as \<open>vFuncAdj\<close> and as \<open>vFuncFxd\<close>.
\<close>

theorem null_function_placeholders:
  "cFuncAdj (PortfolioSolution_init k) \<noteq> None
   \<and> ShareFuncAdj (PortfolioSolution_init k) \<noteq> None
   \<and> vFuncAdj (PortfolioSolution_init k) \<noteq> None
   \<and> vPfuncAdj (PortfolioSolution_init k) \<noteq> None
   \<and> cFuncFxd (PortfolioSolution_init k) \<noteq> None
   \<and> ShareFuncFxd (PortfolioSolution_init k) \<noteq> None
   \<and> vFuncFxd (PortfolioSolution_init k) \<noteq> None
   \<and> dvdmFuncFxd (PortfolioSolution_init k) \<noteq> None
   \<and> dvdsFuncFxd (PortfolioSolution_init k) \<noteq> None
   \<and> (cFuncAdj k = None \<longrightarrow> cFuncAdj (PortfolioSolution_init k) = Some NullFunc)
   \<and> (ShareFuncAdj k = None \<longrightarrow> ShareFuncAdj (PortfolioSolution_init k) = Some NullFunc)
   \<and> (vFuncAdj k = None \<longrightarrow> vFuncAdj (PortfolioSolution_init k) = Some NullFunc)
   \<and> (vPfuncAdj k = None \<longrightarrow> vPfuncAdj (PortfolioSolution_init k) = Some NullFunc)
   \<and> (cFuncFxd k = None \<longrightarrow> cFuncFxd (PortfolioSolution_init k) = Some NullFunc)
   \<and> (ShareFuncFxd k = None \<longrightarrow> ShareFuncFxd (PortfolioSolution_init k) = Some NullFunc)
   \<and> (vFuncFxd k = None \<longrightarrow> vFuncFxd (PortfolioSolution_init k) = Some NullFunc)
   \<and> (dvdmFuncFxd k = None \<longrightarrow> dvdmFuncFxd (PortfolioSolution_init k) = Some NullFunc)
   \<and> (dvdsFuncFxd k = None \<longrightarrow> dvdsFuncFxd (PortfolioSolution_init k) = Some NullFunc)
   \<and> (solve_one_period_ConsPortfolio p = Inr s \<and> \<not> vFuncBool p
        \<longrightarrow> vFuncAdj s = Some NullFunc \<and> vFuncFxd s = Some NullFunc)"
proof -
  have init: "\<And>f. or_NullFunc f \<noteq> None" "\<And>f. f = None \<Longrightarrow> or_NullFunc f = Some NullFunc"
    by (simp_all add: or_NullFunc_def)
  have solver: "vFuncAdj s = Some NullFunc \<and> vFuncFxd s = Some NullFunc"
    if "solve_one_period_ConsPortfolio p = Inr s" "\<not> vFuncBool p"
    using solve_Inr(1) [OF that(1)] that(2)
    by (simp add: solution_now_fields vFuncAdj_now_def vFuncFxd_now_def)
  show ?thesis
    using solver by (simp add: PortfolioSolution_init_def init)
qed

theorem null_function_placeholders_witness:
  "vFuncAdj no_args = None \<and> vFuncAdj (PortfolioSolution_init no_args) = Some NullFunc
   \<and> dvdsFuncFxd no_args = None \<and> dvdsFuncFxd (PortfolioSolution_init no_args) = Some NullFunc
   \<and> \<not> vFuncBool example_args
   \<and> solve_one_period_ConsPortfolio example_args
       = Inr (solution_now example_args (end_of_period example_args))
   \<and> vFuncAdj (solution_now example_args (end_of_period example_args))
       = Some NullFunc
   \<and> vFuncFxd (solution_now example_args (end_of_period example_args))
       = Some NullFunc"
  using null_function_placeholders [of no_args example_args
      "solution_now example_args (end_of_period example_args)"]
    ex_solve
  by (simp add: ex_fields no_args_def)

text \<open>
  C6. The terminal solution: \<open>cFuncAdj\<close> is the identity function, so consumption equals
  market resources at every \<open>m\<close>; \<open>ShareFuncAdj\<close> is the constant zero; the fixed-regime
  consumption function returns its first argument, the market resources; \<open>hNrm\<close> is 0 and
  \<open>MPCmin\<close> is 1.
\<close>

theorem terminal_solution:
  "cFuncAdj (update_solution_terminal rho) = Some (IdentityFunction 0 1)
   \<and> call1 (the (cFuncAdj (update_solution_terminal rho))) m = Some m
   \<and> ShareFuncAdj (update_solution_terminal rho) = Some (ConstantFunction 0)
   \<and> call1 (the (ShareFuncAdj (update_solution_terminal rho))) m = Some 0
   \<and> cFuncFxd (update_solution_terminal rho) = Some (IdentityFunction 0 2)
   \<and> call2 (the (cFuncFxd (update_solution_terminal rho))) m share = Some m
   \<and> hNrm (update_solution_terminal rho) = Some 0
   \<and> MPCmin (update_solution_terminal rho) = Some 1"
  by (simp add: terminal_fields)

text \<open>
  C2, as amended. Continuous share choice at one asset gridpoint, \<open>FOC_s\<close> being the row
  of the marginal value of the share there. \<open>share_idx\<close> is the segment of the share grid
  where the row flips sign: whenever some segment has a value at least 0 followed by a
  value at most 0, \<open>share_idx\<close> is such a segment, the first one (\<^verbatim>\<open>np.argmax\<close> returns the
  first index of a largest entry). The crossing fraction is
  \<open>alpha = 1 - top_f / (top_f - bot_f)\<close>, computed as the source does (with no finite value
  when the two values are equal). When the row is on neither constraint, the segment
  brackets a sign flip, and the optimal share and consumption are the \<open>alpha\<close>-weighted
  interpolation between the two bracketing gridpoints. When every value of the row is
  positive the share is 1 and consumption is read at the last share gridpoint; when
  every value is negative the share is 0 and consumption is read at the first one. The
  constraints are tested on the last and on the first value of the row, the lower
  constraint last.
\<close>

theorem continuous_share_choice:
  assumes "2 \<le> length FOC_s"
  shows
    "share_idx FOC_s + 1 < length FOC_s
     \<and> ((\<exists>k. k + 1 < length FOC_s \<and> 0 \<le> FOC_s ! k \<and> FOC_s ! (k + 1) \<le> 0)
          \<longrightarrow> 0 \<le> FOC_s ! share_idx FOC_s \<and> FOC_s ! (share_idx FOC_s + 1) \<le> 0
              \<and> (\<forall>j < share_idx FOC_s. \<not> (0 \<le> FOC_s ! j \<and> FOC_s ! (j + 1) \<le> 0)))
     \<and> alpha FOC_s
          = fsub (Some 1) (fdiv (Some (FOC_s ! (share_idx FOC_s + 1)))
                                (Some (FOC_s ! (share_idx FOC_s + 1) - FOC_s ! share_idx FOC_s)))
     \<and> (FOC_s ! (share_idx FOC_s + 1) \<noteq> FOC_s ! share_idx FOC_s
          \<longrightarrow> alpha FOC_s
              = Some (1 - FOC_s ! (share_idx FOC_s + 1)
                          / (FOC_s ! (share_idx FOC_s + 1) - FOC_s ! share_idx FOC_s)))
     \<and> (\<not> hd FOC_s < 0 \<and> \<not> 0 < last FOC_s
          \<longrightarrow> 0 \<le> FOC_s ! share_idx FOC_s \<and> FOC_s ! (share_idx FOC_s + 1) \<le> 0
              \<and> ShareAdj_continuous share_grid FOC_s
                  = fadd (fmul (fsub (Some 1) (alpha FOC_s)) (Some (share_grid ! share_idx FOC_s)))
                         (fmul (alpha FOC_s) (Some (share_grid ! (share_idx FOC_s + 1))))
              \<and> cNrmAdj_continuous dvdaNvrs FOC_s
                  = fadd (fmul (fsub (Some 1) (alpha FOC_s)) (dvdaNvrs ! share_idx FOC_s))
                         (fmul (alpha FOC_s) (dvdaNvrs ! (share_idx FOC_s + 1))))
     \<and> ((\<forall>x \<in> set FOC_s. 0 < x)
          \<longrightarrow> ShareAdj_continuous share_grid FOC_s = Some 1
              \<and> cNrmAdj_continuous dvdaNvrs FOC_s = last dvdaNvrs)
     \<and> ((\<forall>x \<in> set FOC_s. x < 0)
          \<longrightarrow> ShareAdj_continuous share_grid FOC_s = Some 0
              \<and> cNrmAdj_continuous dvdaNvrs FOC_s = hd dvdaNvrs)
     \<and> (hd FOC_s < 0
          \<longrightarrow> ShareAdj_continuous share_grid FOC_s = Some 0
              \<and> cNrmAdj_continuous dvdaNvrs FOC_s = hd dvdaNvrs)
     \<and> (\<not> hd FOC_s < 0 \<and> 0 < last FOC_s
          \<longrightarrow> ShareAdj_continuous share_grid FOC_s = Some 1
              \<and> cNrmAdj_continuous dvdaNvrs FOC_s = last dvdaNvrs)
     \<and> (\<not> DiscreteShareBool p
          \<longrightarrow> ShareAdj_opt p E = map (ShareAdj_continuous (solver_args.ShareGrid p)) (EndOfPrd_dvds E)
              \<and> cNrmAdj_opt p E = map2 cNrmAdj_continuous (EndOfPrd_dvdaNvrs p E) (EndOfPrd_dvds E))"
proof -
  have ne: "FOC_s \<noteq> []" using assms by auto
  have hd_in: "hd FOC_s \<in> set FOC_s" and last_in: "last FOC_s \<in> set FOC_s"
    using ne by simp_all
  have c1: "share_idx FOC_s + 1 < length FOC_s"
    by (rule share_idx_in_range [OF assms])
  have c2: "(\<exists>k. k + 1 < length FOC_s \<and> 0 \<le> FOC_s ! k \<and> FOC_s ! (k + 1) \<le> 0)
          \<longrightarrow> 0 \<le> FOC_s ! share_idx FOC_s \<and> FOC_s ! (share_idx FOC_s + 1) \<le> 0
              \<and> (\<forall>j < share_idx FOC_s. \<not> (0 \<le> FOC_s ! j \<and> FOC_s ! (j + 1) \<le> 0))"
    using share_idx_crossing by blast
  have c3: "alpha FOC_s
          = fsub (Some 1) (fdiv (Some (FOC_s ! (share_idx FOC_s + 1)))
                                (Some (FOC_s ! (share_idx FOC_s + 1) - FOC_s ! share_idx FOC_s)))"
    by (simp add: alpha_def Let_def)
  have c4: "FOC_s ! (share_idx FOC_s + 1) \<noteq> FOC_s ! share_idx FOC_s
          \<longrightarrow> alpha FOC_s
              = Some (1 - FOC_s ! (share_idx FOC_s + 1)
                          / (FOC_s ! (share_idx FOC_s + 1) - FOC_s ! share_idx FOC_s))"
    by (simp add: alpha_def Let_def fsub_def fdiv_def)
  have c5: "\<not> hd FOC_s < 0 \<and> \<not> 0 < last FOC_s
          \<longrightarrow> 0 \<le> FOC_s ! share_idx FOC_s \<and> FOC_s ! (share_idx FOC_s + 1) \<le> 0
              \<and> ShareAdj_continuous share_grid FOC_s
                  = fadd (fmul (fsub (Some 1) (alpha FOC_s)) (Some (share_grid ! share_idx FOC_s)))
                         (fmul (alpha FOC_s) (Some (share_grid ! (share_idx FOC_s + 1))))
              \<and> cNrmAdj_continuous dvdaNvrs FOC_s
                  = fadd (fmul (fsub (Some 1) (alpha FOC_s)) (dvdaNvrs ! share_idx FOC_s))
                         (fmul (alpha FOC_s) (dvdaNvrs ! (share_idx FOC_s + 1)))"
  proof
    assume u: "\<not> hd FOC_s < 0 \<and> \<not> 0 < last FOC_s"
    then have "0 \<le> hd FOC_s" "last FOC_s \<le> 0" by auto
    from sign_flip_exists [OF assms this] c2
    have "0 \<le> FOC_s ! share_idx FOC_s \<and> FOC_s ! (share_idx FOC_s + 1) \<le> 0" by blast
    with u show "0 \<le> FOC_s ! share_idx FOC_s \<and> FOC_s ! (share_idx FOC_s + 1) \<le> 0
              \<and> ShareAdj_continuous share_grid FOC_s
                  = fadd (fmul (fsub (Some 1) (alpha FOC_s)) (Some (share_grid ! share_idx FOC_s)))
                         (fmul (alpha FOC_s) (Some (share_grid ! (share_idx FOC_s + 1))))
              \<and> cNrmAdj_continuous dvdaNvrs FOC_s
                  = fadd (fmul (fsub (Some 1) (alpha FOC_s)) (dvdaNvrs ! share_idx FOC_s))
                         (fmul (alpha FOC_s) (dvdaNvrs ! (share_idx FOC_s + 1)))"
      by (simp add: ShareAdj_continuous_def cNrmAdj_continuous_def constrained_bot_def
          constrained_top_def Let_def)
  qed
  have c6: "(\<forall>x \<in> set FOC_s. 0 < x)
          \<longrightarrow> ShareAdj_continuous share_grid FOC_s = Some 1
              \<and> cNrmAdj_continuous dvdaNvrs FOC_s = last dvdaNvrs"
  proof
    assume "\<forall>x \<in> set FOC_s. 0 < x"
    with hd_in last_in have "0 < hd FOC_s" "0 < last FOC_s" by auto
    then show "ShareAdj_continuous share_grid FOC_s = Some 1
              \<and> cNrmAdj_continuous dvdaNvrs FOC_s = last dvdaNvrs"
      by (simp add: ShareAdj_continuous_def cNrmAdj_continuous_def constrained_bot_def
          constrained_top_def Let_def)
  qed
  have c7: "(\<forall>x \<in> set FOC_s. x < 0)
          \<longrightarrow> ShareAdj_continuous share_grid FOC_s = Some 0
              \<and> cNrmAdj_continuous dvdaNvrs FOC_s = hd dvdaNvrs"
  proof
    assume "\<forall>x \<in> set FOC_s. x < 0"
    with hd_in have "hd FOC_s < 0" by auto
    then show "ShareAdj_continuous share_grid FOC_s = Some 0
              \<and> cNrmAdj_continuous dvdaNvrs FOC_s = hd dvdaNvrs"
      by (simp add: ShareAdj_continuous_def cNrmAdj_continuous_def constrained_bot_def Let_def)
  qed
  have c8: "hd FOC_s < 0
          \<longrightarrow> ShareAdj_continuous share_grid FOC_s = Some 0
              \<and> cNrmAdj_continuous dvdaNvrs FOC_s = hd dvdaNvrs"
    by (simp add: ShareAdj_continuous_def cNrmAdj_continuous_def constrained_bot_def Let_def)
  have c9: "\<not> hd FOC_s < 0 \<and> 0 < last FOC_s
          \<longrightarrow> ShareAdj_continuous share_grid FOC_s = Some 1
              \<and> cNrmAdj_continuous dvdaNvrs FOC_s = last dvdaNvrs"
    by (simp add: ShareAdj_continuous_def cNrmAdj_continuous_def constrained_bot_def
        constrained_top_def Let_def)
  have c10: "\<not> DiscreteShareBool p
          \<longrightarrow> ShareAdj_opt p E = map (ShareAdj_continuous (solver_args.ShareGrid p)) (EndOfPrd_dvds E)
              \<and> cNrmAdj_opt p E = map2 cNrmAdj_continuous (EndOfPrd_dvdaNvrs p E) (EndOfPrd_dvds E)"
    by (simp add: ShareAdj_opt_def cNrmAdj_opt_def)
  from c1 c2 c3 c4 c5 c6 c7 c8 c9 c10 show ?thesis by blast
qed

theorem continuous_share_choice_witness:
  "2 \<le> length [2, 1, - 1, - 3 :: real]
   \<and> (0::real) \<le> [2, 1, - 1, - 3] ! 1 \<and> [2, 1, - 1, - 3] ! (1 + 1) \<le> (0::real)
   \<and> share_idx [2, 1, - 1, - 3] = 1
   \<and> alpha [2, 1, - 1, - 3] = Some (1 / 2)
   \<and> ShareAdj_continuous [0, 1 / 3, 2 / 3, 1] [2, 1, - 1, - 3] = Some (1 / 2)
   \<and> cNrmAdj_continuous [Some 1, Some 2, Some 4, Some 8] [2, 1, - 1, - 3] = Some 3
   \<and> ShareAdj_continuous [0, 1 / 3, 2 / 3, 1] [4, 3, 2, 1] = Some 1
   \<and> cNrmAdj_continuous [Some 1, Some 2, Some 4, Some 8] [4, 3, 2, 1] = Some 8
   \<and> ShareAdj_continuous [0, 1 / 3, 2 / 3, 1] [- 1, - 2, - 3, - 4] = Some 0
   \<and> cNrmAdj_continuous [Some 1, Some 2, Some 4, Some 8] [- 1, - 2, - 3, - 4] = Some 1
   \<and> \<not> DiscreteShareBool example_args
   \<and> ShareAdj_opt example_args (end_of_period example_args)
       = map (ShareAdj_continuous [0, 1]) [[0, 0], [- 9 / 49, - 144 / 361]]
   \<and> share_idx [1, 0, 0, - 1] = 0
   \<and> ShareAdj_continuous [0, 1 / 3, 2 / 3, 1] [1, 0, 0, - 1] = Some (1 / 3)
   \<and> cNrmAdj_continuous [Some 1, Some 2, Some 4, Some 8] [1, 0, 0, - 1] = Some 2"
proof -
  have len: "2 \<le> length [2, 1, - 1, - 3 :: real]" "2 \<le> length [4, 3, 2, 1 :: real]"
    "2 \<le> length [- 1, - 2, - 3, - 4 :: real]" "2 \<le> length [1, 0, 0, - 1 :: real]"
    by simp_all
  note many = continuous_share_choice [OF len(4), of "[0, 1 / 3, 2 / 3, 1]"
      "[Some 1, Some 2, Some 4, Some 8]" example_args "end_of_period example_args"]
  have mi: "share_idx [1, 0, 0, - 1] = 0"
    by (simp add: share_idx_def crossing_def Let_def)
  have ma: "alpha [1, 0, 0, - 1] = Some 1"
    using many [THEN conjunct2, THEN conjunct2, THEN conjunct2, THEN conjunct1]
    by (simp add: mi)
  have mm: "ShareAdj_continuous [0, 1 / 3, 2 / 3, 1] [1, 0, 0, - 1] = Some (1 / 3)
           \<and> cNrmAdj_continuous [Some 1, Some 2, Some 4, Some 8] [1, 0, 0, - 1] = Some 2"
    using many [THEN conjunct2, THEN conjunct2, THEN conjunct2, THEN conjunct2, THEN conjunct1]
    by (simp add: mi ma fadd_def fmul_def fsub_def)
  note flip = continuous_share_choice [OF len(1), of "[0, 1 / 3, 2 / 3, 1]"
      "[Some 1, Some 2, Some 4, Some 8]" example_args "end_of_period example_args"]
  note top = continuous_share_choice [OF len(2), of "[0, 1 / 3, 2 / 3, 1]"
      "[Some 1, Some 2, Some 4, Some 8]" example_args "end_of_period example_args"]
  note bot = continuous_share_choice [OF len(3), of "[0, 1 / 3, 2 / 3, 1]"
      "[Some 1, Some 2, Some 4, Some 8]" example_args "end_of_period example_args"]
  have a: "alpha [2, 1, - 1, - 3] = Some (1 / 2)"
    using flip [THEN conjunct2, THEN conjunct2, THEN conjunct2, THEN conjunct1]
    by (simp add: share_idx_example)
  have i: "ShareAdj_continuous [0, 1 / 3, 2 / 3, 1] [2, 1, - 1, - 3] = Some (1 / 2)
           \<and> cNrmAdj_continuous [Some 1, Some 2, Some 4, Some 8] [2, 1, - 1, - 3] = Some 3"
    using flip [THEN conjunct2, THEN conjunct2, THEN conjunct2, THEN conjunct2, THEN conjunct1]
    by (simp add: share_idx_example a fadd_def fmul_def fsub_def)
  have t: "ShareAdj_continuous [0, 1 / 3, 2 / 3, 1] [4, 3, 2, 1] = Some 1
           \<and> cNrmAdj_continuous [Some 1, Some 2, Some 4, Some 8] [4, 3, 2, 1] = Some 8"
    using top [THEN conjunct2, THEN conjunct2, THEN conjunct2, THEN conjunct2, THEN conjunct2,
        THEN conjunct1]
    by simp
  have b: "ShareAdj_continuous [0, 1 / 3, 2 / 3, 1] [- 1, - 2, - 3, - 4] = Some 0
           \<and> cNrmAdj_continuous [Some 1, Some 2, Some 4, Some 8] [- 1, - 2, - 3, - 4] = Some 1"
    using bot [THEN conjunct2, THEN conjunct2, THEN conjunct2, THEN conjunct2, THEN conjunct2,
        THEN conjunct2, THEN conjunct1]
    by simp
  have o: "ShareAdj_opt example_args (end_of_period example_args)
       = map (ShareAdj_continuous [0, 1]) [[0, 0], [- 9 / 49, - 144 / 361]]"
    using flip [THEN conjunct2, THEN conjunct2, THEN conjunct2, THEN conjunct2, THEN conjunct2,
        THEN conjunct2, THEN conjunct2, THEN conjunct2, THEN conjunct2]
    by (simp add: ex_fields ex_E)
  from a i t b o mi mm show ?thesis
    by (simp add: share_idx_example ex_fields)
qed

text \<open>
  C2 as stated, with the sign flip at the last index where a value at least 0 is followed
  by a value at most 0, fails. In the row [1, 0, 0, -1] every segment has such a pair;
  the source takes the first segment and the specification's words the last, and on the
  share grid [0, 1/3, 2/3, 1] the share is 1/3 against 2/3 and consumption 2 against 4.
  In the row [1, -1, 1, -1] the first and the last sign flip give the shares 1/6 and 5/6.
\<close>

theorem last_sign_flip_not_taken:
  "crossing [1, 0, 0, - 1] = [True, True, True]
   \<and> share_idx [1, 0, 0, - 1] = 0
   \<and> share_idx_spec [1, 0, 0, - 1] = 2
   \<and> ShareAdj_continuous [0, 1 / 3, 2 / 3, 1] [1, 0, 0, - 1] = Some (1 / 3)
   \<and> ShareAdj_spec [0, 1 / 3, 2 / 3, 1] [1, 0, 0, - 1] = Some (2 / 3)
   \<and> cNrmAdj_continuous [Some 1, Some 2, Some 4, Some 8] [1, 0, 0, - 1] = Some 2
   \<and> cNrmAdj_spec [Some 1, Some 2, Some 4, Some 8] [1, 0, 0, - 1] = Some 4
   \<and> crossing [1, - 1, 1, - 1] = [True, False, True]
   \<and> share_idx [1, - 1, 1, - 1] = 0
   \<and> share_idx_spec [1, - 1, 1, - 1] = 2
   \<and> ShareAdj_continuous [0, 1 / 3, 2 / 3, 1] [1, - 1, 1, - 1] = Some (1 / 6)
   \<and> ShareAdj_spec [0, 1 / 3, 2 / 3, 1] [1, - 1, 1, - 1] = Some (5 / 6)"
proof -
  have c: "crossing [1, 0, 0, - 1] = [True, True, True]"
    "crossing [1, - 1, 1, - 1] = [True, False, True]"
    by (simp_all add: crossing_def)
  have i: "share_idx [1, 0, 0, - 1] = 0" "share_idx [1, - 1, 1, - 1] = 0"
    by (simp_all add: share_idx_def c Let_def)
  have u: "[0 ..< 3] = [0, 1, 2]" by (simp add: upt_rec)
  have j: "share_idx_spec [1, 0, 0, - 1] = 2" "share_idx_spec [1, - 1, 1, - 1] = 2"
    by (simp_all add: share_idx_spec_def c u)
  have a: "alpha [1, 0, 0, - 1] = Some 1" "alpha [1, - 1, 1, - 1] = Some (1 / 2)"
    by (simp_all add: alpha_def i fsub_def fdiv_def)
  have b: "alpha_spec [1, 0, 0, - 1] = Some 0" "alpha_spec [1, - 1, 1, - 1] = Some (1 / 2)"
    by (simp_all add: alpha_spec_def j fsub_def fdiv_def)
  have 1: "ShareAdj_continuous [0, 1 / 3, 2 / 3, 1] [1, 0, 0, - 1] = Some (1 / 3)"
    "cNrmAdj_continuous [Some 1, Some 2, Some 4, Some 8] [1, 0, 0, - 1] = Some 2"
    "ShareAdj_continuous [0, 1 / 3, 2 / 3, 1] [1, - 1, 1, - 1] = Some (1 / 6)"
    by (simp_all add: ShareAdj_continuous_def cNrmAdj_continuous_def constrained_bot_def
        constrained_top_def i a fadd_def fmul_def fsub_def)
  have 2: "ShareAdj_spec [0, 1 / 3, 2 / 3, 1] [1, 0, 0, - 1] = Some (2 / 3)"
    "cNrmAdj_spec [Some 1, Some 2, Some 4, Some 8] [1, 0, 0, - 1] = Some 4"
    "ShareAdj_spec [0, 1 / 3, 2 / 3, 1] [1, - 1, 1, - 1] = Some (5 / 6)"
    by (simp_all add: ShareAdj_spec_def cNrmAdj_spec_def j b fadd_def fmul_def fsub_def)
  from c i j 1 2 show ?thesis by (simp only: simp_thms)
qed

text \<open>
  C8. For a period the solver solves: when the smallest transitory shock is positive,
  the asset grid is \<open>aXtraGrid\<close> with an exact 0 in front, and at that gridpoint the share
  is 1 and consumption is the last entry (the top of the share grid) of the first row of
  the inverse marginal utility of \<open>EndOfPrd_dvda\<close>; when the smallest transitory shock is
  zero, the asset grid is \<open>aXtraGrid\<close> and the share and consumption arrays are left as
  the share choice computed them.
\<close>

theorem zero_asset_gridpoint:
  assumes "solve_one_period_ConsPortfolio p = Inr s"
  shows
    "(0 < np_min (map (\<lambda>(pr, S). TranShk S) (IncShkDstn p))
        \<longrightarrow> aNrmGrid p = 0 # aXtraGrid p
            \<and> aGrid s = Some (0 # aXtraGrid p)
            \<and> ShareAdj_now p (end_of_period p) ! 0 = Some 1
            \<and> cNrmAdj_now p (end_of_period p) ! 0
                = last (EndOfPrd_dvdaNvrs p (end_of_period p) ! 0)
            \<and> EndOfPrd_dvdaNvrs p (end_of_period p) ! 0
                = map (uFunc_derinv (CRRA p)) (EndOfPrd_dvda (end_of_period p) ! 0))
     \<and> (np_min (map (\<lambda>(pr, S). TranShk S) (IncShkDstn p)) = 0
        \<longrightarrow> aNrmGrid p = aXtraGrid p
            \<and> aGrid s = Some (aXtraGrid p)
            \<and> ShareAdj_now p (end_of_period p) = ShareAdj_opt p (end_of_period p)
            \<and> cNrmAdj_now p (end_of_period p) = cNrmAdj_opt p (end_of_period p))"
proof -
  note r = solve_Inr [OF assms]
  have pos: "aNrmGrid p = 0 # aXtraGrid p
            \<and> aGrid s = Some (0 # aXtraGrid p)
            \<and> ShareAdj_now p (end_of_period p) ! 0 = Some 1
            \<and> cNrmAdj_now p (end_of_period p) ! 0
                = last (EndOfPrd_dvdaNvrs p (end_of_period p) ! 0)
            \<and> EndOfPrd_dvdaNvrs p (end_of_period p) ! 0
                = map (uFunc_derinv (CRRA p)) (EndOfPrd_dvda (end_of_period p) ! 0)"
    if "0 < np_min (map (\<lambda>(pr, S). TranShk S) (IncShkDstn p))"
  proof -
    from that have nz: "\<not> BoroCnstNat_iszero p" by (simp add: BoroCnstNat_iszero_def)
    then have g: "aNrmGrid p = 0 # aXtraGrid p" by (simp add: aNrmGrid_def)
    have "0 < length (ShareAdj_opt p (end_of_period p))" "0 < length (cNrmAdj_opt p (end_of_period p))"
      using opt_lengths [OF r(3)] g by simp_all
    moreover have "0 < length (EndOfPrd_dvda (end_of_period p))"
      using end_of_period_shape(1) [of p] g by simp
    ultimately show ?thesis
      using nz g r(1)
      by (simp add: ShareAdj_now_def cNrmAdj_now_def solution_now_fields EndOfPrd_dvdaNvrs_def)
  qed
  have zero: "aNrmGrid p = aXtraGrid p
            \<and> aGrid s = Some (aXtraGrid p)
            \<and> ShareAdj_now p (end_of_period p) = ShareAdj_opt p (end_of_period p)
            \<and> cNrmAdj_now p (end_of_period p) = cNrmAdj_opt p (end_of_period p)"
    if "np_min (map (\<lambda>(pr, S). TranShk S) (IncShkDstn p)) = 0"
    using that r(1)
    by (simp add: BoroCnstNat_iszero_def aNrmGrid_def ShareAdj_now_def cNrmAdj_now_def
        solution_now_fields)
  from pos zero show ?thesis by blast
qed

theorem zero_asset_gridpoint_witness:
  "solve_one_period_ConsPortfolio example_args
     = Inr (solution_now example_args (end_of_period example_args))
   \<and> 0 < np_min (map (\<lambda>(pr, S). TranShk S) (IncShkDstn example_args))
   \<and> aNrmGrid example_args = [0, 3 / 4]
   \<and> aGrid (solution_now example_args (end_of_period example_args)) = Some [0, 3 / 4]
   \<and> ShareAdj_now example_args (end_of_period example_args) ! 0 = Some 1
   \<and> cNrmAdj_now example_args (end_of_period example_args) ! 0 = Some 2
   \<and> solve_one_period_ConsPortfolio example_zero_shock
     = Inr (solution_now example_zero_shock (end_of_period example_zero_shock))
   \<and> np_min (map (\<lambda>(pr, S). TranShk S) (IncShkDstn example_zero_shock)) = 0
   \<and> aNrmGrid example_zero_shock = [3 / 4]
   \<and> aGrid (solution_now example_zero_shock (end_of_period example_zero_shock))
       = Some [3 / 4]
   \<and> ShareAdj_now example_zero_shock (end_of_period example_zero_shock)
       = ShareAdj_opt example_zero_shock (end_of_period example_zero_shock)"
  using zero_asset_gridpoint [OF ex_solve]
    zero_asset_gridpoint [OF ex_zero_solve]
    ex_solve ex_zero_solve
  by (simp add: ex_fields ex_Nvrs) (simp add: example_zero_shock_def ex_fields)

text \<open>
  C4. The adjust-regime consumption function of a solved period is the piecewise-linear
  interpolant over the endogenous gridpoints \<open>aNrmGrid[i] + cNrmAdj[i]\<close> with the origin in
  front. It is built without a limiting intercept and slope: the terms
  \<open>cFuncLimitIntercept = MPCminNow * hNrmNow\<close> and \<open>cFuncLimitSlope = MPCminNow\<close> of lines
  456--458 are not passed to it, so it is never the interpolant with these limits.
\<close>

theorem cFuncAdj_construction:
  assumes "solve_one_period_ConsPortfolio p = Inr s"
  shows
    "cFuncAdj s
       = Some (LinearInterp
           (Some 0 # map2 fadd (map Some (aNrmGrid p)) (cNrmAdj_now p (end_of_period p)))
           (Some 0 # cNrmAdj_now p (end_of_period p))
           None None)
     \<and> cFuncLimitIntercept p = MPCminNow p * hNrmNow p
     \<and> cFuncLimitSlope p = MPCminNow p
     \<and> MPCmin s = Some (MPCminNow p)
     \<and> hNrm s = Some (hNrmNow p)
     \<and> (\<forall>x_list y_list. cFuncAdj s
           \<noteq> Some (LinearInterp x_list y_list (Some (cFuncLimitIntercept p)) (Some (cFuncLimitSlope p))))"
  using solve_Inr(1) [OF assms]
  by (simp add: solution_now_fields cFuncAdj_now_def mNrmAdj_now_def cNrmAdj_ins_def
      cFuncLimitIntercept_def cFuncLimitSlope_def)

theorem cFuncAdj_construction_witness:
  "solve_one_period_ConsPortfolio example_args
     = Inr (solution_now example_args (end_of_period example_args))
   \<and> cFuncAdj (solution_now example_args (end_of_period example_args))
       = Some (LinearInterp [Some 0, Some 2, Some (5 / 2)] [Some 0, Some 2, Some (7 / 4)] None None)
   \<and> cFuncLimitIntercept example_args = 1 / 2
   \<and> cFuncLimitSlope example_args = 1 / 2
   \<and> call1 (LinearInterp [Some 0, Some 2, Some (5 / 2)] [Some 0, Some 2, Some (7 / 4)] None None) (9 / 2)
       = Some (3 / 4)
   \<and> cFuncLimitIntercept example_args + cFuncLimitSlope example_args * (9 / 2) = 11 / 4"
proof -
  note c = cFuncAdj_construction [OF ex_solve]
  have 1: "cFuncAdj (solution_now example_args (end_of_period example_args))
       = Some (LinearInterp [Some 0, Some 2, Some (5 / 2)] [Some 0, Some 2, Some (7 / 4)] None None)"
    using c [THEN conjunct1] by (simp add: ex_c ex_aNrmGrid fadd_def)
  have 2: "cFuncLimitIntercept example_args = 1 / 2" "cFuncLimitSlope example_args = 1 / 2"
    using c [THEN conjunct2, THEN conjunct1] c [THEN conjunct2, THEN conjunct2, THEN conjunct1]
    by (simp_all add: ex_asym)
  have 3: "call1 (LinearInterp [Some 0, Some 2, Some (5 / 2)] [Some 0, Some 2, Some (7 / 4)] None None) (9 / 2)
       = Some (3 / 4)"
    by (simp add: interp_np_def searchsorted_def fadd_def fmul_def fsub_def fdiv_def)
  from 1 2 3 ex_solve show ?thesis by simp
qed

text \<open>
  C9. The arrays saved in a solved period. \<open>aGrid\<close> is the asset grid. \<open>Share_adj\<close> is the
  optimal share at the asset gridpoints in the discrete case; in the continuous case it
  has one more entry than \<open>aGrid\<close>, the lower bound of the share function in front.
  \<open>EndOfPrddvda_adj\<close> is marginal utility at the consumption values with the origin in
  front: one more entry than \<open>aGrid\<close>, the first without a value. \<open>EndOfPrddvda_fxd\<close> is
  marginal utility applied to \<open>EndOfPrd_dvda\<close>, \<open>EndOfPrddvds_fxd\<close> is \<open>EndOfPrd_dvds\<close>.
\<close>

theorem saved_points:
  assumes "solve_one_period_ConsPortfolio p = Inr s"
  shows
    "aGrid s = Some (aNrmGrid p)
     \<and> Share_adj s
         = Some (if DiscreteShareBool p then ShareAdj_now p (end_of_period p)
                 else Some (Share_lower_bound p) # ShareAdj_now p (end_of_period p))
     \<and> length (ShareAdj_now p (end_of_period p)) = length (aNrmGrid p)
     \<and> length (the (Share_adj s))
         = (if DiscreteShareBool p then length (the (aGrid s)) else length (the (aGrid s)) + 1)
     \<and> EndOfPrddvda_adj s
         = Some (map (uFunc_der (CRRA p)) (Some 0 # cNrmAdj_now p (end_of_period p)))
     \<and> length (the (EndOfPrddvda_adj s)) = length (the (aGrid s)) + 1
     \<and> hd (the (EndOfPrddvda_adj s)) = None
     \<and> EndOfPrddvda_fxd s
         = Some (map (map (\<lambda>x. uFunc_der (CRRA p) (Some x))) (EndOfPrd_dvda (end_of_period p)))
     \<and> EndOfPrddvds_fxd s = Some (EndOfPrd_dvds (end_of_period p))"
proof -
  note r = solve_Inr [OF assms]
  note l = now_lengths [OF r(3)]
  show ?thesis
    unfolding r(1)
    by (simp add: solution_now_fields ShareAdj_ins_def cNrmAdj_ins_def l uFunc_der_def)
qed

theorem saved_points_witness:
  "solve_one_period_ConsPortfolio example_args
     = Inr (solution_now example_args (end_of_period example_args))
   \<and> \<not> DiscreteShareBool example_args
   \<and> aGrid (solution_now example_args (end_of_period example_args))
       = Some [0, 3 / 4]
   \<and> Share_adj (solution_now example_args (end_of_period example_args))
       = Some [Some 1, Some 1, Some 0]
   \<and> EndOfPrddvda_adj (solution_now example_args (end_of_period example_args))
       = Some [None, Some (1 / 4), Some (16 / 49)]
   \<and> EndOfPrd_dvda (end_of_period example_args) = [[1, 1 / 4], [16 / 49, 64 / 361]]
   \<and> EndOfPrddvda_fxd (solution_now example_args (end_of_period example_args))
       = Some [[Some 1, Some 16], [Some (2401 / 256), Some (130321 / 4096)]]"
proof -
  note c = saved_points [OF ex_solve]
  have d: "uFunc_der 2 (Some 1) = Some 1" "uFunc_der 2 (Some (1 / 4)) = Some 16"
    "uFunc_der 2 (Some (16 / 49)) = Some (2401 / 256)"
    "uFunc_der 2 (Some (64 / 361)) = Some (130321 / 4096)"
    "uFunc_der 2 (Some 2) = Some (1 / 4)" "uFunc_der 2 (Some (7 / 4)) = Some (16 / 49)"
    "uFunc_der 2 (Some 0) = None"
    by (simp_all add: ex_der power2_eq_square) (simp add: uFunc_der_def)
  have 1: "aGrid (solution_now example_args (end_of_period example_args))
       = Some [0, 3 / 4]"
    using c [THEN conjunct1] by (simp add: ex_aNrmGrid)
  have 2: "Share_adj (solution_now example_args (end_of_period example_args))
       = Some [Some 1, Some 1, Some 0]"
    using c [THEN conjunct2, THEN conjunct1]
    by (simp add: ex_fields ex_share Share_lower_bound_def ex_iszero)
  have 3: "EndOfPrddvda_adj (solution_now example_args (end_of_period example_args))
       = Some [None, Some (1 / 4), Some (16 / 49)]"
    using c [THEN conjunct2, THEN conjunct2, THEN conjunct2, THEN conjunct2, THEN conjunct1]
    by (simp add: ex_fields ex_c d)
  have 4: "EndOfPrddvda_fxd (solution_now example_args (end_of_period example_args))
       = Some [[Some 1, Some 16], [Some (2401 / 256), Some (130321 / 4096)]]"
    using c [THEN conjunct2, THEN conjunct2, THEN conjunct2, THEN conjunct2, THEN conjunct2,
        THEN conjunct2, THEN conjunct2, THEN conjunct1]
    by (simp add: ex_fields ex_E d)
  from 1 2 3 4 ex_solve show ?thesis
    by (simp add: ex_fields ex_E)
qed




text \<open>
  C3 fails at the worked period whose risky asset returns exactly the risk-free factor:
  the marginal value of the share is zero on the whole grid, the row of the positive
  asset gridpoint has a sign flip with both values zero, \<open>alpha\<close> is 0/0 and the optimal
  share there is not a number; the fix only repairs the row of zero assets. The share
  function is built on these nodes, so its last node is not a number either. Every node
  that is a number lies in [0, 1] (\<open>share_nodes_unit\<close>).
\<close>

theorem ShareFuncAdj_not_finite:
  "solve_one_period_ConsPortfolio example_flat
     = Inr (solution_now example_flat (end_of_period example_flat))
   \<and> solver_args.ShareGrid example_flat = [0, 1]
   \<and> ShareLimit example_flat = 0
   \<and> EndOfPrd_dvds (end_of_period example_flat) = [[0, 0], [0, 0]]
   \<and> alpha (EndOfPrd_dvds (end_of_period example_flat) ! 1) = None
   \<and> Share_adj (solution_now example_flat (end_of_period example_flat))
       = Some [Some 1, Some 1, None]
   \<and> ShareFuncAdj (solution_now example_flat (end_of_period example_flat))
       = Some (LinearInterp [Some 0, Some 1, None] [Some 1, Some 1, None] (Some 0) (Some 0))"
proof -
  have 1: "ShareAdj_ins example_flat (end_of_period example_flat) = [Some 1, Some 1, None]"
    by (simp add: ShareAdj_ins_def fl_fields fl_share Share_lower_bound_def fl_iszero)
  have 2: "ShareFuncAdj_now example_flat (end_of_period example_flat)
      = LinearInterp [Some 0, Some 1, None] [Some 1, Some 1, None] (Some 0) (Some 0)"
    by (simp add: ShareFuncAdj_now_def fl_fields fl_m 1)
  show ?thesis
    using fl_solve
    by (simp add: solution_now_fields 1 2 fl_fields) (simp add: fl_E fl_alpha)
qed




end
